theory Spec2Isabelle
  imports Main
begin

section \<open>The administration controller of evolution-backend\<close>

text \<open>
  A shallow embedding of \<^verbatim>\<open>src/src/controllers/adminController.js\<close>: the request
  handlers that list, read, create, update, soft-delete and (de)activate users and that
  assign locations ("locales") to administrators. Each handler is a function from the
  stored data and the request to either the failure it answers with or the stored data
  after the write. Every \<^verbatim>\<open>return res.status(...)\<close> of a handler is one branch of
  its model, in the order of the source.
\<close>

subsection \<open>Data model\<close>

text \<open>
  Object ids are compared through \<^verbatim>\<open>toString()\<close> in the source, so an id is its
  string. A location document is represented by its id; the handlers read nothing else
  of it but its name in a message.
\<close>

type_synonym oid = string

text \<open>
  Modelled from the spec: the schema file \<^verbatim>\<open>models/User.js\<close> is not among the
  sources; the fields are those the controller reads and writes, typed as section 3 of
  the specification describes them. The field \<open>local\<close> is read by \<^verbatim>\<open>deleteUser\<close>
  only (\<^verbatim>\<open>user.local\<close>); no handler of the controller writes it.
\<close>

record user =
  uid :: oid
  nombre :: string
  email :: string
  password :: string
  role :: string
  telefono :: "string option"
  direccion :: "string option"
  organizacion :: "string option"
  locales :: "oid list"
  localPrincipal :: "oid option"
  local :: "oid option"
  esAdministradorLocal :: bool
  verificado :: bool
  activo :: bool
  enLinea :: bool
  creadoPor :: "oid option"
  ultimaModificacion :: "(oid \<times> nat) option"
  intentosFallidos :: nat
  bloqueadoHasta :: "nat option"
  passwordResetToken :: "string option"
  passwordResetExpires :: "nat option"
  createdAt :: nat

text \<open>
  The two collections the controller touches: the user documents, and the ids of the
  location documents that exist (\<^verbatim>\<open>Local.findById\<close> is only ever tested for null).
\<close>

record db =
  users :: "user list"
  locals :: "oid list"

text \<open>
  What the authentication layer has put on the request before a handler runs:
  \<^verbatim>\<open>req.userId\<close>, \<^verbatim>\<open>req.userRole\<close> and \<^verbatim>\<open>req.user.locales\<close> (an absent list and
  an empty list pass the same tests in the source, so both are \<open>[]\<close>).
\<close>

record request =
  userId :: oid
  userRole :: string
  user_locales :: "oid list"

text \<open>\<^verbatim>\<open>const MAX_SUPER_ADMINS = 4;\<close>\<close>

definition MAX_SUPER_ADMINS :: nat where
  "MAX_SUPER_ADMINS = 4"

subsection \<open>Responses\<close>

text \<open>
  One constructor for each failure response of the handlers modelled here, named after
  its message. \<open>InternalError\<close> is the \<^verbatim>\<open>catch\<close> block (status 500).
\<close>

datatype failure =
    UserNotFound
  | ViewForbidden
  | SuperAdminLimitCreate
  | SuperAdminLimitUpdate
  | CreateRoleForbidden
  | CreateLocalesForbidden
  | LocalMissing oid
  | EmailTaken
  | EditForbidden
  | MustAssignLocal
  | AssignSuperAdminForbidden
  | ModifySuperAdminForbidden
  | DeleteForbidden
  | LastSuperAdminDelete
  | LastAdminOfLocalDelete
  | StatusForbidden
  | StatusForbiddenOtherLocal
  | LastSuperAdminDeactivate
  | LastAdminOfLocalDeactivate oid
  | LocalIdRequired
  | AdminNotFound
  | LocalNotFound
  | LocalAlreadyAssigned
  | LocalNotAssigned
  | OnlyLocalAssigned
  | InternalError

fun http_status :: "failure \<Rightarrow> nat" where
  "http_status UserNotFound = 404"
| "http_status ViewForbidden = 403"
| "http_status SuperAdminLimitCreate = 400"
| "http_status SuperAdminLimitUpdate = 400"
| "http_status CreateRoleForbidden = 403"
| "http_status CreateLocalesForbidden = 403"
| "http_status (LocalMissing l) = 404"
| "http_status EmailTaken = 400"
| "http_status EditForbidden = 403"
| "http_status MustAssignLocal = 400"
| "http_status AssignSuperAdminForbidden = 403"
| "http_status ModifySuperAdminForbidden = 403"
| "http_status DeleteForbidden = 403"
| "http_status LastSuperAdminDelete = 400"
| "http_status LastAdminOfLocalDelete = 400"
| "http_status StatusForbidden = 403"
| "http_status StatusForbiddenOtherLocal = 403"
| "http_status LastSuperAdminDeactivate = 400"
| "http_status (LastAdminOfLocalDeactivate l) = 400"
| "http_status LocalIdRequired = 400"
| "http_status AdminNotFound = 404"
| "http_status LocalNotFound = 404"
| "http_status LocalAlreadyAssigned = 400"
| "http_status LocalNotAssigned = 400"
| "http_status OnlyLocalAssigned = 400"
| "http_status InternalError = 500"

text \<open>
  Modelled from the spec: the failure kinds of section 7 (the source only has status
  codes and messages). Status 403 is \<open>Forbidden\<close>, 404 is \<open>NotFound\<close> except for a
  referenced location id that does not exist, which section 7 lists under \<open>InvalidInput\<close>;
  the status-400 responses are split as section 7 splits them.
\<close>

datatype kind = NotFound | Forbidden | InvalidInput | InvariantViolation | Conflict | Internal

fun kind_of :: "failure \<Rightarrow> kind" where
  "kind_of UserNotFound = NotFound"
| "kind_of ViewForbidden = Forbidden"
| "kind_of SuperAdminLimitCreate = InvariantViolation"
| "kind_of SuperAdminLimitUpdate = InvariantViolation"
| "kind_of CreateRoleForbidden = Forbidden"
| "kind_of CreateLocalesForbidden = Forbidden"
| "kind_of (LocalMissing l) = InvalidInput"
| "kind_of EmailTaken = Conflict"
| "kind_of EditForbidden = Forbidden"
| "kind_of MustAssignLocal = InvariantViolation"
| "kind_of AssignSuperAdminForbidden = Forbidden"
| "kind_of ModifySuperAdminForbidden = Forbidden"
| "kind_of DeleteForbidden = Forbidden"
| "kind_of LastSuperAdminDelete = InvariantViolation"
| "kind_of LastAdminOfLocalDelete = InvariantViolation"
| "kind_of StatusForbidden = Forbidden"
| "kind_of StatusForbiddenOtherLocal = Forbidden"
| "kind_of LastSuperAdminDeactivate = InvariantViolation"
| "kind_of (LastAdminOfLocalDeactivate l) = InvariantViolation"
| "kind_of LocalIdRequired = InvalidInput"
| "kind_of AdminNotFound = NotFound"
| "kind_of LocalNotFound = InvalidInput"
| "kind_of LocalAlreadyAssigned = Conflict"
| "kind_of LocalNotAssigned = Conflict"
| "kind_of OnlyLocalAssigned = InvariantViolation"
| "kind_of InternalError = Internal"

subsection \<open>The stores\<close>

text \<open>
  Modelled from the spec: the query layer is a library, and the schema's query hooks
  are not among the sources. A query returns the first stored document that satisfies
  its filter, \<^verbatim>\<open>countDocuments\<close> counts the documents that satisfy it (active and
  inactive alike, as section 8 of the specification says of the superAdmin count), and a
  write replaces the stored document that has the written document's id.
\<close>

definition findOne :: "(user \<Rightarrow> bool) \<Rightarrow> user list \<Rightarrow> user option" where
  "findOne P us = find P us"

definition findById :: "user list \<Rightarrow> oid \<Rightarrow> user option" where
  "findById us i = findOne (\<lambda>u. uid u = i) us"

definition countDocuments :: "(user \<Rightarrow> bool) \<Rightarrow> user list \<Rightarrow> nat" where
  "countDocuments P us = length (filter P us)"

definition findByIdAndUpdate :: "oid \<Rightarrow> (user \<Rightarrow> user) \<Rightarrow> db \<Rightarrow> db" where
  "findByIdAndUpdate i f d = d\<lparr>users := map (\<lambda>v. if uid v = i then f v else v) (users d)\<rparr>"

definition save :: "user \<Rightarrow> db \<Rightarrow> db" where
  "save u d = findByIdAndUpdate (uid u) (\<lambda>_. u) d"

definition Local_exists :: "db \<Rightarrow> oid \<Rightarrow> bool" where
  "Local_exists d l = (l \<in> set (locals d))"

text \<open>JavaScript truthiness of a request value that is a string or absent.\<close>

fun truthy :: "string option \<Rightarrow> bool" where
  "truthy None = False"
| "truthy (Some s) = (s \<noteq> [])"

text \<open>
  The database after a handler has answered: a failure response is sent before any
  write, so the stored data is then what it was.
\<close>

definition db_after :: "db \<Rightarrow> failure + db \<Rightarrow> db" where
  "db_after d r = (case r of Inl e \<Rightarrow> d | Inr d' \<Rightarrow> d')"

subsection \<open>Assigning locations to an administrator\<close>

text \<open>
  \<^verbatim>\<open>assignLocalToAdmin\<close> (lines 978-1028). \<^verbatim>\<open>admin.locales.includes(localId)\<close> is
  membership by id; \<^verbatim>\<open>push\<close> appends.
\<close>

definition assignLocalToAdmin :: "db \<Rightarrow> oid \<Rightarrow> string option \<Rightarrow> failure + db" where
  "assignLocalToAdmin d adminId body_localId =
     (if \<not> truthy body_localId then Inl LocalIdRequired
      else
        let localId = the body_localId in
        case findOne (\<lambda>u. uid u = adminId \<and> role u = ''admin'') (users d) of
          None \<Rightarrow> Inl AdminNotFound
        | Some admin \<Rightarrow>
            if \<not> Local_exists d localId then Inl LocalNotFound
            else if localId \<in> set (locales admin) then Inl LocalAlreadyAssigned
            else
              let pushed = locales admin @ [localId];
                  principal = (if length pushed = 1 then Some localId
                               else localPrincipal admin)
              in Inr (save (admin\<lparr>locales := pushed, localPrincipal := principal\<rparr>) d))"

text \<open>
  \<^verbatim>\<open>removeLocalFromAdmin\<close> (lines 1035-1082). \<^verbatim>\<open>admin.locales[0]\<close> of an empty
  array is \<^verbatim>\<open>undefined\<close>, which unsets the field.
\<close>

definition first_local :: "oid list \<Rightarrow> oid option" where
  "first_local ls = (case ls of [] \<Rightarrow> None | l # _ \<Rightarrow> Some l)"

definition removeLocalFromAdmin :: "db \<Rightarrow> oid \<Rightarrow> oid \<Rightarrow> failure + db" where
  "removeLocalFromAdmin d adminId localId =
     (case findOne (\<lambda>u. uid u = adminId \<and> role u = ''admin'') (users d) of
        None \<Rightarrow> Inl AdminNotFound
      | Some admin \<Rightarrow>
          if localId \<notin> set (locales admin) then Inl LocalNotAssigned
          else if length (locales admin) = 1 then Inl OnlyLocalAssigned
          else
            let remaining = filter (\<lambda>i. i \<noteq> localId) (locales admin);
                principal = (if localPrincipal admin = Some localId then first_local remaining
                             else localPrincipal admin)
            in Inr (save (admin\<lparr>locales := remaining, localPrincipal := principal\<rparr>) d))"

subsection \<open>Reading one user\<close>

text \<open>
  \<^verbatim>\<open>.populate('locales', ...)\<close> is the query layer's: it replaces every id of
  \<open>locales\<close> by the location document the id names, and drops an id that names none.
  \<open>populated\<close> is the document a handler holds after it.
\<close>

definition populate :: "db \<Rightarrow> oid list \<Rightarrow> oid list" where
  "populate d ls = filter (Local_exists d) ls"

definition populated :: "db \<Rightarrow> user \<Rightarrow> user" where
  "populated d user = user\<lparr>locales := populate d (locales user)\<rparr>"

text \<open>
  What \<^verbatim>\<open>toString()\<close> returns, by what it is called on: on an id, the string of the
  id; on a populated document, the rendering of the whole document, which is the string
  of no id. The two are compared with \<^verbatim>\<open>===\<close>.
\<close>

datatype rendering = Id_string oid | Document_string oid

text \<open>
  \<^verbatim>\<open>user.locales.some(local => req.user.locales.some(adminLocal =>
  adminLocal.toString() === local._id.toString()))\<close>, as \<^verbatim>\<open>toggleUserStatus\<close> and
  \<^verbatim>\<open>resetUserPassword\<close> write it: the document has a location whose id is one of the
  actor's.
\<close>

definition shares_local :: "request \<Rightarrow> user \<Rightarrow> bool" where
  "shares_local rq user =
     list_ex (\<lambda>l. list_ex (\<lambda>adminLocal. adminLocal = l) (user_locales rq)) (locales user)"

text \<open>
  \<^verbatim>\<open>getUserById\<close> (lines 181-236). The target is populated (line 187), and line 212
  compares \<^verbatim>\<open>adminLocal.toString()\<close>, the string of an id, with
  \<^verbatim>\<open>local.toString()\<close>, the rendering of a populated location document. The answer
  is the stored document; that the password is left out of it
  (\<^verbatim>\<open>select('-password')\<close>) is not modelled.
\<close>

definition getUserById :: "db \<Rightarrow> request \<Rightarrow> oid \<Rightarrow> failure + user" where
  "getUserById d rq i =
     (case findById (users d) i of
        None \<Rightarrow> Inl UserNotFound
      | Some user \<Rightarrow>
          if userRole rq = ''admin'' then
            (if role user = ''superAdmin'' then Inl ViewForbidden
             else if \<not> list_ex
                        (\<lambda>local. list_ex
                           (\<lambda>adminLocal. Id_string adminLocal = Document_string local)
                           (user_locales rq))
                        (locales (populated d user))
             then Inl ViewForbidden
             else Inr user)
          else Inr user)"

subsection \<open>Creating a user\<close>

text \<open>
  The body of a create request. \<open>nombre\<close>, \<open>email\<close> and \<open>password\<close> are taken as
  present; the other fields may be absent.
\<close>

record create_body =
  c_nombre :: string
  c_email :: string
  c_password :: string
  c_role :: "string option"
  c_telefono :: "string option"
  c_direccion :: "string option"
  c_organizacion :: "string option"
  c_locales :: "oid list option"

text \<open>\<^verbatim>\<open>locales && Array.isArray(locales) && locales.length > 0\<close>\<close>

definition has_locales :: "oid list option \<Rightarrow> bool" where
  "has_locales ls = (case ls of None \<Rightarrow> False | Some xs \<Rightarrow> xs \<noteq> [])"

text \<open>
  The loop \<^verbatim>\<open>for (const localId of locales)\<close> with \<^verbatim>\<open>Local.findById(localId)\<close>:
  the first id that names no location, if there is one.
\<close>

fun first_missing_local :: "db \<Rightarrow> oid list \<Rightarrow> oid option" where
  "first_missing_local d [] = None"
| "first_missing_local d (localId # rest) =
     (if Local_exists d localId then first_missing_local d rest else Some localId)"

text \<open>
  Modelled from the spec: the schema's validators are not among the sources. Section 3
  of the specification has exactly three roles; a document with another role is refused
  by the store, which the handlers' \<^verbatim>\<open>catch\<close> blocks answer with status 500.
\<close>

definition valid_role :: "string \<Rightarrow> bool" where
  "valid_role r = (r = ''usuario'' \<or> r = ''admin'' \<or> r = ''superAdmin'')"

text \<open>
  Line 281, \<^verbatim>\<open>req.body.locales = req.user.locales\<close>, runs when the actor is an admin
  and the request names no location. It changes the request body. The constant
  \<^verbatim>\<open>locales\<close> was destructured from the body on line 241, before the assignment, and
  it is this constant that lines 327-331 read when they build the document.
\<close>

definition req_body_after_defaults :: "request \<Rightarrow> create_body \<Rightarrow> create_body" where
  "req_body_after_defaults rq body =
     (if userRole rq = ''admin'' \<and> (\<not> truthy (c_role body) \<or> c_role body = Some ''usuario'')
         \<and> \<not> has_locales (c_locales body)
      then body\<lparr>c_locales := Some (user_locales rq)\<rparr> else body)"

text \<open>
  The document \<^verbatim>\<open>User.create(userData)\<close> stores (lines 308-334): \<^verbatim>\<open>userData\<close> and
  the schema's defaults for the fields it leaves out (modelled from the spec: an empty
  \<open>locales\<close>, no \<open>localPrincipal\<close>, \<open>esAdministradorLocal\<close> false, no failed
  attempts). The id \<open>newId\<close> and the time \<open>now\<close> come from the store and the clock. The
  password is stored as the credential collaborator returns it, which is not modelled.
\<close>

definition created_user :: "request \<Rightarrow> nat \<Rightarrow> oid \<Rightarrow> create_body \<Rightarrow> user" where
  "created_user rq now newId body =
     (let role = c_role body; locales = c_locales body
      in \<lparr> uid = newId,
           nombre = c_nombre body,
           email = c_email body,
           password = c_password body,
           role = (if truthy role then the role else ''usuario''),
           telefono = c_telefono body,
           direccion = c_direccion body,
           organizacion = c_organizacion body,
           locales = (if has_locales locales then the locales else []),
           localPrincipal = (if has_locales locales then first_local (the locales) else None),
           local = None,
           esAdministradorLocal = False,
           verificado = True,
           activo = True,
           enLinea = False,
           creadoPor = Some (userId rq),
           ultimaModificacion = Some (userId rq, now),
           intentosFallidos = 0,
           bloqueadoHasta = None,
           passwordResetToken = None,
           passwordResetExpires = None,
           createdAt = now \<rparr>)"

text \<open>Lines 336-340: the flag is set on the created document, which is saved again.\<close>

definition new_user :: "request \<Rightarrow> nat \<Rightarrow> oid \<Rightarrow> create_body \<Rightarrow> user" where
  "new_user rq now newId body =
     (let newUser = created_user rq now newId body
      in if role newUser = ''admin'' \<and> locales newUser \<noteq> []
         then newUser\<lparr>esAdministradorLocal := True\<rparr> else newUser)"

text \<open>\<^verbatim>\<open>createUser\<close> (lines 239-370).\<close>

definition createUser :: "db \<Rightarrow> request \<Rightarrow> nat \<Rightarrow> oid \<Rightarrow> create_body \<Rightarrow> failure + db" where
  "createUser d rq now newId body =
     (let role = c_role body; locales = c_locales body in
      if role = Some ''superAdmin''
         \<and> MAX_SUPER_ADMINS \<le> countDocuments (\<lambda>u. user.role u = ''superAdmin'') (users d)
      then Inl SuperAdminLimitCreate
      else if userRole rq = ''admin'' \<and> truthy role \<and> role \<noteq> Some ''usuario''
      then Inl CreateRoleForbidden
      else if userRole rq = ''admin'' \<and> has_locales locales
         \<and> \<not> list_all (\<lambda>localId. list_ex (\<lambda>adminLocal. adminLocal = localId) (user_locales rq))
                (the locales)
      then Inl CreateLocalesForbidden
      else if userRole rq = ''superAdmin'' \<and> has_locales locales
         \<and> first_missing_local d (the locales) \<noteq> None
      then Inl (LocalMissing (the (first_missing_local d (the locales))))
      else if findOne (\<lambda>u. email u = c_email body) (users d) \<noteq> None
      then Inl EmailTaken
      else if \<not> valid_role (user.role (new_user rq now newId body))
      then Inl InternalError
      else Inr (d\<lparr>users := users d @ [new_user rq now newId body]\<rparr>))"

subsection \<open>Updating a user\<close>

text \<open>
  The body of an update request, \<^verbatim>\<open>updateData\<close>: every field of the document may be
  present or absent, and \<^verbatim>\<open>delete updateData.f\<close> makes \<open>f\<close> absent.
\<close>

record update_body =
  b_nombre :: "string option"
  b_email :: "string option"
  b_role :: "string option"
  b_telefono :: "string option"
  b_direccion :: "string option"
  b_organizacion :: "string option"
  b_locales :: "oid list option"
  b_localPrincipal :: "oid option"
  b_esAdministradorLocal :: "bool option"
  b_verificado :: "bool option"
  b_activo :: "bool option"
  b_enLinea :: "bool option"
  b_password :: "string option"
  b_intentosFallidos :: "nat option"
  b_bloqueadoHasta :: "nat option"
  b_passwordResetToken :: "string option"
  b_passwordResetExpires :: "nat option"
  b_ultimaModificacion :: "(oid \<times> nat) option"

text \<open>
  Lines 378-390. \<^verbatim>\<open>User.findById(userId)\<close> is null when no user has the id, and
  reading \<^verbatim>\<open>user.role\<close> of null throws; the \<^verbatim>\<open>catch\<close> block answers 500.
\<close>

definition superAdmin_limit_check :: "db \<Rightarrow> oid \<Rightarrow> update_body \<Rightarrow> failure option" where
  "superAdmin_limit_check d i updateData =
     (if b_role updateData = Some ''superAdmin'' then
        (case findById (users d) i of
           None \<Rightarrow> Some InternalError
         | Some user \<Rightarrow>
             if role user \<noteq> ''superAdmin''
                \<and> MAX_SUPER_ADMINS \<le> countDocuments (\<lambda>u. role u = ''superAdmin'') (users d)
             then Some SuperAdminLimitUpdate else None)
      else None)"

text \<open>
  Lines 402-441. The method \<^verbatim>\<open>req.user.puedeAdministrar\<close> belongs to the user schema,
  which is not among the sources: it is the parameter \<open>puedeAdministrar\<close>. The handler
  reads \<^verbatim>\<open>user.locales.length\<close> of the populated target; the model reads the stored
  list, which has the same length when every stored id names a location.
\<close>

definition scope_check ::
  "(request \<Rightarrow> user \<Rightarrow> bool) \<Rightarrow> db \<Rightarrow> request \<Rightarrow> user \<Rightarrow> update_body \<Rightarrow> failure + update_body"
where
  "scope_check puedeAdministrar d rq user updateData =
     (if userRole rq = ''admin'' then
        (if \<not> puedeAdministrar rq user then Inl EditForbidden
         else Inr (updateData\<lparr>b_role := None, b_locales := None, b_localPrincipal := None\<rparr>))
      else if userRole rq = ''superAdmin'' then
        (if b_role updateData = Some ''admin'' \<and> \<not> has_locales (b_locales updateData)
            \<and> locales user = []
         then Inl MustAssignLocal
         else
           (case b_locales updateData of
              None \<Rightarrow> Inr updateData
            | Some ls \<Rightarrow>
                (case first_missing_local d ls of
                   Some localId \<Rightarrow> Inl (LocalMissing localId)
                 | None \<Rightarrow> Inr updateData)))
      else Inr updateData)"

text \<open>Lines 443-457.\<close>

definition role_check :: "request \<Rightarrow> user \<Rightarrow> update_body \<Rightarrow> failure option" where
  "role_check rq user updateData =
     (if b_role updateData = Some ''superAdmin'' \<and> userRole rq \<noteq> ''superAdmin''
      then Some AssignSuperAdminForbidden
      else if role user = ''superAdmin'' \<and> userRole rq \<noteq> ''superAdmin''
      then Some ModifySuperAdminForbidden
      else None)"

text \<open>Lines 459-464: the five \<^verbatim>\<open>delete\<close> statements.\<close>

definition delete_credentials :: "update_body \<Rightarrow> update_body" where
  "delete_credentials updateData =
     updateData\<lparr>b_password := None, b_intentosFallidos := None, b_bloqueadoHasta := None,
                b_passwordResetToken := None, b_passwordResetExpires := None\<rparr>"

text \<open>Lines 459-481: what is handed to \<^verbatim>\<open>$set\<close>.\<close>

definition prepare_update :: "request \<Rightarrow> nat \<Rightarrow> user \<Rightarrow> update_body \<Rightarrow> update_body" where
  "prepare_update rq now user updateData =
     (let u1 = delete_credentials updateData;
          u2 = u1\<lparr>b_ultimaModificacion := Some (userId rq, now)\<rparr>;
          u3 = (if b_role u2 = Some ''admin''
                   \<and> (has_locales (b_locales u2) \<or> locales user \<noteq> [])
                then u2\<lparr>b_esAdministradorLocal := Some True\<rparr> else u2)
      in if has_locales (b_locales u3)
         then u3\<lparr>b_localPrincipal := first_local (the (b_locales u3))\<rparr> else u3)"

text \<open>\<^verbatim>\<open>{ $set: updateData }\<close>: a field that is present replaces the stored one.\<close>

definition set_fields :: "update_body \<Rightarrow> user \<Rightarrow> user" where
  "set_fields s u =
     u\<lparr> nombre := (case b_nombre s of None \<Rightarrow> nombre u | Some v \<Rightarrow> v),
        email := (case b_email s of None \<Rightarrow> email u | Some v \<Rightarrow> v),
        role := (case b_role s of None \<Rightarrow> role u | Some v \<Rightarrow> v),
        telefono := (case b_telefono s of None \<Rightarrow> telefono u | Some v \<Rightarrow> Some v),
        direccion := (case b_direccion s of None \<Rightarrow> direccion u | Some v \<Rightarrow> Some v),
        organizacion := (case b_organizacion s of None \<Rightarrow> organizacion u | Some v \<Rightarrow> Some v),
        locales := (case b_locales s of None \<Rightarrow> locales u | Some v \<Rightarrow> v),
        localPrincipal := (case b_localPrincipal s of None \<Rightarrow> localPrincipal u | Some v \<Rightarrow> Some v),
        esAdministradorLocal :=
          (case b_esAdministradorLocal s of None \<Rightarrow> esAdministradorLocal u | Some v \<Rightarrow> v),
        verificado := (case b_verificado s of None \<Rightarrow> verificado u | Some v \<Rightarrow> v),
        activo := (case b_activo s of None \<Rightarrow> activo u | Some v \<Rightarrow> v),
        enLinea := (case b_enLinea s of None \<Rightarrow> enLinea u | Some v \<Rightarrow> v),
        password := (case b_password s of None \<Rightarrow> password u | Some v \<Rightarrow> v),
        intentosFallidos :=
          (case b_intentosFallidos s of None \<Rightarrow> intentosFallidos u | Some v \<Rightarrow> v),
        bloqueadoHasta := (case b_bloqueadoHasta s of None \<Rightarrow> bloqueadoHasta u | Some v \<Rightarrow> Some v),
        passwordResetToken :=
          (case b_passwordResetToken s of None \<Rightarrow> passwordResetToken u | Some v \<Rightarrow> Some v),
        passwordResetExpires :=
          (case b_passwordResetExpires s of None \<Rightarrow> passwordResetExpires u | Some v \<Rightarrow> Some v),
        ultimaModificacion :=
          (case b_ultimaModificacion s of None \<Rightarrow> ultimaModificacion u | Some v \<Rightarrow> Some v) \<rparr>"

text \<open>\<^verbatim>\<open>runValidators: true\<close>: the role that is written must be one of the schema's.\<close>

definition validators_pass :: "update_body \<Rightarrow> bool" where
  "validators_pass s = (case b_role s of None \<Rightarrow> True | Some r \<Rightarrow> valid_role r)"

text \<open>\<^verbatim>\<open>updateUser\<close> (lines 373-505).\<close>

definition updateUser ::
  "(request \<Rightarrow> user \<Rightarrow> bool) \<Rightarrow> db \<Rightarrow> request \<Rightarrow> nat \<Rightarrow> oid \<Rightarrow> update_body \<Rightarrow> failure + db"
where
  "updateUser puedeAdministrar d rq now i body =
     (case superAdmin_limit_check d i body of
        Some e \<Rightarrow> Inl e
      | None \<Rightarrow>
          (case findById (users d) i of
             None \<Rightarrow> Inl UserNotFound
           | Some user \<Rightarrow>
               (case scope_check puedeAdministrar d rq user body of
                  Inl e \<Rightarrow> Inl e
                | Inr updateData \<Rightarrow>
                    (case role_check rq user updateData of
                       Some e \<Rightarrow> Inl e
                     | None \<Rightarrow>
                         if \<not> validators_pass (prepare_update rq now user updateData)
                         then Inl InternalError
                         else Inr (findByIdAndUpdate i
                                     (set_fields (prepare_update rq now user updateData)) d)))))"

subsection \<open>Soft-deleting and (de)activating a user\<close>

text \<open>
  \<^verbatim>\<open>deleteUser\<close> (lines 508-579). The guard of line 542 reads \<^verbatim>\<open>user.local\<close> and
  the count of lines 543-547 filters on \<^verbatim>\<open>local: user.local\<close>.
\<close>

definition deleteUser :: "db \<Rightarrow> request \<Rightarrow> nat \<Rightarrow> oid \<Rightarrow> failure + db" where
  "deleteUser d rq now i =
     (if userRole rq \<noteq> ''superAdmin'' then Inl DeleteForbidden
      else
        (case findById (users d) i of
           None \<Rightarrow> Inl UserNotFound
         | Some user \<Rightarrow>
             if role user = ''superAdmin''
                \<and> countDocuments (\<lambda>u. role u = ''superAdmin'' \<and> activo u) (users d) \<le> 1
             then Inl LastSuperAdminDelete
             else if role user = ''admin'' \<and> local user \<noteq> None
                \<and> countDocuments (\<lambda>u. role u = ''admin'' \<and> local u = local user \<and> activo u)
                     (users d) \<le> 1
             then Inl LastAdminOfLocalDelete
             else Inr (findByIdAndUpdate i
                         (\<lambda>u. u\<lparr>activo := False, enLinea := False,
                                ultimaModificacion := Some (userId rq, now)\<rparr>) d)))"

text \<open>
  The loop of lines 702-715 over the locations of the populated target: the first one
  whose count of active admins is at most one.
\<close>

fun last_admin_local :: "user list \<Rightarrow> oid list \<Rightarrow> oid option" where
  "last_admin_local us [] = None"
| "last_admin_local us (l # rest) =
     (if countDocuments (\<lambda>u. role u = ''admin'' \<and> l \<in> set (locales u) \<and> activo u) us \<le> 1
      then Some l else last_admin_local us rest)"

text \<open>
  \<^verbatim>\<open>toggleUserStatus\<close> (lines 647-748); \<open>new_activo\<close> is \<^verbatim>\<open>req.body.activo\<close>. The
  target is populated (lines 653-654), so the checks read the locations that exist.
  \<^verbatim>\<open>user.save()\<close> writes the three paths that were assigned; the stored locations stay
  as they were.
\<close>

definition toggleUserStatus :: "db \<Rightarrow> request \<Rightarrow> nat \<Rightarrow> oid \<Rightarrow> bool \<Rightarrow> failure + db" where
  "toggleUserStatus d rq now i new_activo =
     (case findById (users d) i of
        None \<Rightarrow> Inl UserNotFound
      | Some stored \<Rightarrow>
          let user = populated d stored in
          if userRole rq = ''admin'' \<and> (role user = ''superAdmin'' \<or> role user = ''admin'')
          then Inl StatusForbidden
          else if userRole rq = ''admin'' \<and> \<not> shares_local rq user
          then Inl StatusForbiddenOtherLocal
          else if role user = ''superAdmin'' \<and> \<not> new_activo
             \<and> countDocuments (\<lambda>u. role u = ''superAdmin'' \<and> activo u) (users d) \<le> 1
          then Inl LastSuperAdminDeactivate
          else if role user = ''admin'' \<and> locales user \<noteq> [] \<and> \<not> new_activo
             \<and> last_admin_local (users d) (locales user) \<noteq> None
          then Inl (LastAdminOfLocalDeactivate (the (last_admin_local (users d) (locales user))))
          else Inr (save (stored\<lparr>activo := new_activo,
                                  enLinea := (if \<not> new_activo then False else enLinea stored),
                                  ultimaModificacion := Some (userId rq, now)\<rparr>) d))"

subsection \<open>Listing users\<close>

text \<open>
  The query string of \<^verbatim>\<open>getAllUsers\<close>. \<open>q_page\<close> and \<open>q_limit\<close> are the results of
  \<^verbatim>\<open>parseInt\<close> when it yields a number (of which 0 is replaced by the default, as
  \<^verbatim>\<open>NaN\<close> is); negative numbers are left out of the model.
\<close>

record list_query =
  q_page :: "nat option"
  q_limit :: "nat option"
  q_role :: "string option"
  q_activo :: "string option"
  q_search :: "string option"
  q_local :: "string option"

text \<open>The filter document of lines 18-41, one field for each key it can hold.\<close>

datatype role_filter = RoleIs string | RoleNot string

datatype locales_filter = HasLocal oid | InLocals "oid list"

record filters =
  f_role :: "role_filter option"
  f_activo :: "bool option"
  f_search :: "string option"
  f_locales :: "locales_filter option"

definition build_filters :: "request \<Rightarrow> list_query \<Rightarrow> filters" where
  "build_filters rq q =
     (let f0 = \<lparr> f_role = None, f_activo = None, f_search = None, f_locales = None \<rparr>;
          f1 = (if truthy (q_role q) then f0\<lparr>f_role := Some (RoleIs (the (q_role q)))\<rparr> else f0);
          f2 = (if q_activo q = Some ''true'' then f1\<lparr>f_activo := Some True\<rparr> else f1);
          f3 = (if q_activo q = Some ''false'' then f2\<lparr>f_activo := Some False\<rparr> else f2);
          f4 = (if truthy (q_search q) then f3\<lparr>f_search := q_search q\<rparr> else f3);
          f5 = (if truthy (q_local q) then f4\<lparr>f_locales := Some (HasLocal (the (q_local q)))\<rparr>
                else f4)
      in if userRole rq = ''admin'' then
           (let f6 = (if user_locales rq \<noteq> []
                      then f5\<lparr>f_locales := Some (InLocals (user_locales rq))\<rparr> else f5)
            in f6\<lparr>f_role := Some (RoleNot ''superAdmin'')\<rparr>)
         else f5)"

text \<open>
  Which documents a filter selects. The regular-expression match of \<^verbatim>\<open>$regex\<close> with
  option \<^verbatim>\<open>i\<close> is the store's; it is the parameter \<open>regex\<close>. A filter on the array
  field \<open>locales\<close> selects the documents whose array holds the id, or one of the ids.
\<close>

definition selects :: "(string \<Rightarrow> string \<Rightarrow> bool) \<Rightarrow> filters \<Rightarrow> user \<Rightarrow> bool" where
  "selects regex f u =
     ((case f_role f of None \<Rightarrow> True | Some (RoleIs r) \<Rightarrow> role u = r
        | Some (RoleNot r) \<Rightarrow> role u \<noteq> r)
      \<and> (case f_activo f of None \<Rightarrow> True | Some b \<Rightarrow> activo u = b)
      \<and> (case f_search f of None \<Rightarrow> True
          | Some s \<Rightarrow> regex s (nombre u) \<or> regex s (email u))
      \<and> (case f_locales f of None \<Rightarrow> True | Some (HasLocal l) \<Rightarrow> l \<in> set (locales u)
          | Some (InLocals ls) \<Rightarrow> list_ex (\<lambda>l. l \<in> set ls) (locales u)))"

text \<open>
  What \<^verbatim>\<open>getAllUsers\<close> (lines 10-178) answers: the page of documents and the
  pagination block. The page is the selected documents, newest first, after
  \<^verbatim>\<open>skip\<close> and \<^verbatim>\<open>limit\<close>. The per-location counts the handler adds to each
  document of the page are left out.
\<close>

record user_page =
  page_users :: "user list"
  total :: nat
  page :: nat
  limit :: nat
  pages :: nat

definition getAllUsers ::
  "(string \<Rightarrow> string \<Rightarrow> bool) \<Rightarrow> db \<Rightarrow> request \<Rightarrow> list_query \<Rightarrow> user_page" where
  "getAllUsers regex d rq q =
     (let page = (case q_page q of None \<Rightarrow> 1 | Some n \<Rightarrow> if n = 0 then 1 else n);
          limit = (case q_limit q of None \<Rightarrow> 10 | Some n \<Rightarrow> if n = 0 then 10 else n);
          skip = (page - 1) * limit;
          filters = build_filters rq q;
          total = countDocuments (selects regex filters) (users d);
          found = rev (sort_key createdAt (filter (selects regex filters) (users d)))
      in \<lparr> page_users = take limit (drop skip found),
           total = total,
           page = page,
           limit = limit,
           pages = (total + limit - 1) div limit \<rparr>)"

subsection \<open>The policy method of the user schema\<close>

text \<open>
  Modelled from the spec: the method \<^verbatim>\<open>puedeAdministrar\<close> of \<^verbatim>\<open>models/User.js\<close>
  is not among the sources. Section 4.1 of the specification: an admin may mutate only
  the targets it may view, and it may view only targets of role \<open>usuario\<close> that share
  at least one location with it.
\<close>

definition puedeAdministrar :: "request \<Rightarrow> user \<Rightarrow> bool" where
  "puedeAdministrar rq target = (role target = ''usuario'' \<and> shares_local rq target)"

subsection \<open>Quantities the properties speak of\<close>

text \<open>The kind of failure a handler answered with, if it failed.\<close>

definition failure_kind :: "failure + 'a \<Rightarrow> kind option" where
  "failure_kind r = (case r of Inl e \<Rightarrow> Some (kind_of e) | Inr _ \<Rightarrow> None)"

text \<open>The counts the guards compute, named.\<close>

definition superAdmin_count :: "db \<Rightarrow> nat" where
  "superAdmin_count d = countDocuments (\<lambda>u. role u = ''superAdmin'') (users d)"

definition active_superAdmins :: "db \<Rightarrow> nat" where
  "active_superAdmins d = countDocuments (\<lambda>u. role u = ''superAdmin'' \<and> activo u) (users d)"

definition active_admins_at :: "db \<Rightarrow> oid \<Rightarrow> nat" where
  "active_admins_at d l =
     countDocuments (\<lambda>u. role u = ''admin'' \<and> l \<in> set (locales u) \<and> activo u) (users d)"

text \<open>Every location id a request names exists (an absent list names none).\<close>

definition locales_exist :: "db \<Rightarrow> oid list option \<Rightarrow> bool" where
  "locales_exist d ls = (case ls of None \<Rightarrow> True | Some xs \<Rightarrow> first_missing_local d xs = None)"

subsection \<open>Example data\<close>

text \<open>A stored user with the given id, role, locations and \<open>activo\<close> flag.\<close>

definition example_user :: "oid \<Rightarrow> string \<Rightarrow> oid list \<Rightarrow> bool \<Rightarrow> user" where
  "example_user i r ls a =
     \<lparr> uid = i, nombre = i, email = i @ ''@example.org'', password = ''hash'', role = r,
       telefono = None, direccion = None, organizacion = None,
       locales = ls, localPrincipal = first_local ls, local = None,
       esAdministradorLocal = (r = ''admin'' \<and> ls \<noteq> []),
       verificado = True, activo = a, enLinea = False,
       creadoPor = None, ultimaModificacion = None, intentosFallidos = 0,
       bloqueadoHasta = None, passwordResetToken = None, passwordResetExpires = None,
       createdAt = 0 \<rparr>"

text \<open>An actor with the given id, role and locations.\<close>

definition actor :: "oid \<Rightarrow> string \<Rightarrow> oid list \<Rightarrow> request" where
  "actor i r ls = \<lparr> userId = i, userRole = r, user_locales = ls \<rparr>"

text \<open>A \<^verbatim>\<open>puedeAdministrar\<close> that accepts every target.\<close>

definition always_allowed :: "request \<Rightarrow> user \<Rightarrow> bool" where
  "always_allowed rq user = True"

text \<open>An update body with no field present, and a create body with the required fields.\<close>

definition empty_update :: update_body where
  "empty_update =
     \<lparr> b_nombre = None, b_email = None, b_role = None, b_telefono = None, b_direccion = None,
       b_organizacion = None, b_locales = None, b_localPrincipal = None,
       b_esAdministradorLocal = None, b_verificado = None, b_activo = None, b_enLinea = None,
       b_password = None, b_intentosFallidos = None, b_bloqueadoHasta = None,
       b_passwordResetToken = None, b_passwordResetExpires = None,
       b_ultimaModificacion = None \<rparr>"

definition example_create :: "string \<Rightarrow> string option \<Rightarrow> oid list option \<Rightarrow> create_body" where
  "example_create n r ls =
     \<lparr> c_nombre = n, c_email = n @ ''@example.org'', c_password = ''secret'', c_role = r,
       c_telefono = None, c_direccion = None, c_organizacion = None, c_locales = ls \<rparr>"

text \<open>
  A store with one superAdmin, two admins (\<open>A1\<close> at \<open>L1\<close>; \<open>A2\<close> at \<open>L1\<close> and \<open>L2\<close>)
  and two plain users; and a store that holds four superAdmins, two of them inactive.
\<close>

definition example_db :: db where
  "example_db =
     \<lparr> users = [example_user ''S1'' ''superAdmin'' [] True,
                example_user ''A1'' ''admin'' [''L1''] True,
                example_user ''A2'' ''admin'' [''L1'', ''L2''] True,
                example_user ''U1'' ''usuario'' [''L1''] True,
                example_user ''U2'' ''usuario'' [''L2''] True],
       locals = [''L1'', ''L2'', ''L3''] \<rparr>"

definition full_db :: db where
  "full_db =
     \<lparr> users = [example_user ''S1'' ''superAdmin'' [] True,
                example_user ''S2'' ''superAdmin'' [] True,
                example_user ''S3'' ''superAdmin'' [] False,
                example_user ''S4'' ''superAdmin'' [] False,
                example_user ''U1'' ''usuario'' [''L1''] True],
       locals = [''L1'', ''L2'', ''L3''] \<rparr>"

text \<open>The store with four superAdmins, and the admin \<open>A1\<close> of location \<open>L1\<close> added.\<close>

definition full_db_with_admin :: db where
  "full_db_with_admin =
     full_db\<lparr>users := users full_db @ [example_user ''A1'' ''admin'' [''L1''] True]\<rparr>"

text \<open>A query string with no parameter, and a matcher that matches nothing.\<close>

definition empty_query :: list_query where
  "empty_query = \<lparr> q_page = None, q_limit = None, q_role = None, q_activo = None,
                    q_search = None, q_local = None \<rparr>"

definition no_match :: "string \<Rightarrow> string \<Rightarrow> bool" where
  "no_match pattern s = False"

section \<open>Properties\<close>

subsection \<open>Store lemmas\<close>

lemma find_map_replace:
  assumes "P u" and "\<And>v. P v \<Longrightarrow> uid v = i" and "find P us = Some w"
  shows "find P (map (\<lambda>v. if uid v = i then u else v) us) = Some u"
  using assms(3)
proof (induction us)
  case Nil
  then show ?case by simp
next
  case (Cons v vs)
  show ?case
  proof (cases "uid v = i")
    case True
    then show ?thesis using assms(1) by simp
  next
    case False
    then have "\<not> P v" using assms(2) by blast
    with False Cons show ?thesis by simp
  qed
qed

lemma findOne_admin_save:
  assumes "findOne (\<lambda>u. uid u = A \<and> role u = ''admin'') (users d) = Some a"
    and "uid a' = A" and "role a' = ''admin''"
  shows "findOne (\<lambda>u. uid u = A \<and> role u = ''admin'') (users (save a' d)) = Some a'"
  using assms find_map_replace [of "\<lambda>u. uid u = A \<and> role u = ''admin''" a' A "users d" a]
  by (simp add: findOne_def save_def findByIdAndUpdate_def)

lemma findOne_admin_uid:
  "findOne (\<lambda>u. uid u = A \<and> role u = ''admin'') us = Some a \<Longrightarrow> uid a = A \<and> role a = ''admin''"
  unfolding findOne_def by (induction us) (auto split: if_splits)

lemma locals_save [simp]: "locals (save u d) = locals d"
  by (simp add: save_def findByIdAndUpdate_def)

lemma findById_uid: "findById us i = Some u \<Longrightarrow> uid u = i"
  unfolding findById_def findOne_def by (induction us) (auto split: if_splits)

lemma findById_map_update:
  assumes "findById us i = Some u" and "uid (f u) = i"
  shows "findById (map (\<lambda>v. if uid v = i then f v else v) us) i = Some (f u)"
  using assms unfolding findById_def findOne_def
  by (induction us) (auto split: if_splits)

subsection \<open>Assignment and removal of locations\<close>

text \<open>
  C7. Let \<open>A\<close> be a stored admin with no locations, and \<open>X\<close>, \<open>Y\<close> two different
  existing locations. Assigning \<open>X\<close> succeeds and leaves \<open>A\<close> with locations \<open>[X]\<close> and
  \<open>localPrincipal = X\<close>; removing \<open>X\<close> then is rejected, since it is the only location.
  Assigning \<open>Y\<close> after \<open>X\<close> succeeds and \<open>localPrincipal\<close> is still \<open>X\<close>; removing
  \<open>X\<close> then succeeds and leaves \<open>localPrincipal = Y\<close>, the first of the remaining
  locations.
\<close>

theorem assign_remove_round_trip:
  assumes a: "findOne (\<lambda>u. uid u = A \<and> role u = ''admin'') (users d) = Some a"
    and empty: "locales a = []"
    and X: "X \<in> set (locals d)" "X \<noteq> []"
    and Y: "Y \<in> set (locals d)" "Y \<noteq> []"
    and XY: "X \<noteq> Y"
  shows "\<exists>d1 a1 d2 a2 d3 a3.
           assignLocalToAdmin d A (Some X) = Inr d1
         \<and> findOne (\<lambda>u. uid u = A \<and> role u = ''admin'') (users d1) = Some a1
         \<and> locales a1 = [X] \<and> localPrincipal a1 = Some X
         \<and> removeLocalFromAdmin d1 A X = Inl OnlyLocalAssigned
         \<and> assignLocalToAdmin d1 A (Some Y) = Inr d2
         \<and> findOne (\<lambda>u. uid u = A \<and> role u = ''admin'') (users d2) = Some a2
         \<and> locales a2 = [X, Y] \<and> localPrincipal a2 = Some X
         \<and> removeLocalFromAdmin d2 A X = Inr d3
         \<and> findOne (\<lambda>u. uid u = A \<and> role u = ''admin'') (users d3) = Some a3
         \<and> locales a3 = [Y] \<and> localPrincipal a3 = Some Y"
proof -
  let ?Q = "\<lambda>u. uid u = A \<and> role u = ''admin''"
  have ua: "uid a = A" "role a = ''admin''"
    using findOne_admin_uid [OF a] by simp_all
  define a1 where "a1 = a\<lparr>locales := [X], localPrincipal := Some X\<rparr>"
  define d1 where "d1 = save a1 d"
  define a2 where "a2 = a1\<lparr>locales := [X, Y], localPrincipal := Some X\<rparr>"
  define d2 where "d2 = save a2 d1"
  define a3 where "a3 = a2\<lparr>locales := [Y], localPrincipal := Some Y\<rparr>"
  define d3 where "d3 = save a3 d2"
  have s1: "assignLocalToAdmin d A (Some X) = Inr d1"
    using a empty X by (simp add: assignLocalToAdmin_def Local_exists_def d1_def a1_def)
  have f1: "findOne ?Q (users d1) = Some a1"
    unfolding d1_def using findOne_admin_save [OF a] ua by (simp add: a1_def)
  have r1: "removeLocalFromAdmin d1 A X = Inl OnlyLocalAssigned"
    using f1 by (simp add: removeLocalFromAdmin_def a1_def)
  have s2: "assignLocalToAdmin d1 A (Some Y) = Inr d2"
    using f1 Y XY
    by (simp add: assignLocalToAdmin_def Local_exists_def d1_def d2_def a2_def a1_def)
  have f2: "findOne ?Q (users d2) = Some a2"
    unfolding d2_def using findOne_admin_save [OF f1] ua by (simp add: a2_def a1_def)
  have r2: "removeLocalFromAdmin d2 A X = Inr d3"
    using f2 XY by (simp add: removeLocalFromAdmin_def d3_def a3_def a2_def first_local_def)
  have f3: "findOne ?Q (users d3) = Some a3"
    unfolding d3_def using findOne_admin_save [OF f2] ua by (simp add: a3_def a2_def a1_def)
  show ?thesis
    using s1 f1 r1 s2 f2 r2 f3 by (simp add: a1_def a2_def a3_def)
qed

theorem assign_remove_round_trip_witness:
  "\<exists>d1 a1 d2 a2 d3 a3.
     assignLocalToAdmin \<lparr>users = [example_user ''A'' ''admin'' [] True], locals = [''X'', ''Y'']\<rparr>
       ''A'' (Some ''X'') = Inr d1
   \<and> findOne (\<lambda>u. uid u = ''A'' \<and> role u = ''admin'') (users d1) = Some a1
   \<and> locales a1 = [''X''] \<and> localPrincipal a1 = Some ''X''
   \<and> removeLocalFromAdmin d1 ''A'' ''X'' = Inl OnlyLocalAssigned
   \<and> assignLocalToAdmin d1 ''A'' (Some ''Y'') = Inr d2
   \<and> findOne (\<lambda>u. uid u = ''A'' \<and> role u = ''admin'') (users d2) = Some a2
   \<and> locales a2 = [''X'', ''Y''] \<and> localPrincipal a2 = Some ''X''
   \<and> removeLocalFromAdmin d2 ''A'' ''X'' = Inr d3
   \<and> findOne (\<lambda>u. uid u = ''A'' \<and> role u = ''admin'') (users d3) = Some a3
   \<and> locales a3 = [''Y''] \<and> localPrincipal a3 = Some ''Y''"
  using assign_remove_round_trip
    [of "''A''" "\<lparr>users = [example_user ''A'' ''admin'' [] True], locals = [''X'', ''Y'']\<rparr>"
        "example_user ''A'' ''admin'' [] True" "''X''" "''Y''"]
  by (simp add: findOne_def example_user_def)

subsection \<open>The superAdmin cap\<close>

lemma create_cap_reached:
  assumes "c_role cb = Some ''superAdmin''" and "MAX_SUPER_ADMINS \<le> superAdmin_count d"
  shows "createUser d rq now newId cb = Inl SuperAdminLimitCreate"
  using assms by (simp add: createUser_def superAdmin_count_def)

lemma create_kind_cap:
  assumes "superAdmin_count d < MAX_SUPER_ADMINS"
  shows "failure_kind (createUser d rq now newId cb) \<noteq> Some InvariantViolation"
  using assms by (simp add: createUser_def superAdmin_count_def Let_def failure_kind_def)

lemma create_superAdmin_succeeds:
  assumes "c_role cb = Some ''superAdmin''" and "superAdmin_count d < MAX_SUPER_ADMINS"
    and "userRole rq = ''superAdmin''" and "locales_exist d (c_locales cb)"
    and "findOne (\<lambda>u. email u = c_email cb) (users d) = None"
  shows "createUser d rq now newId cb = Inr (d\<lparr>users := users d @ [new_user rq now newId cb]\<rparr>)
       \<and> role (new_user rq now newId cb) = ''superAdmin''"
  using assms
  by (auto simp: createUser_def superAdmin_count_def Let_def locales_exist_def has_locales_def
      new_user_def created_user_def valid_role_def split: option.splits)

lemma update_cap_reached:
  assumes "b_role ub = Some ''superAdmin''" and "findById (users d) i = Some user"
    and "role user \<noteq> ''superAdmin''" and "MAX_SUPER_ADMINS \<le> superAdmin_count d"
  shows "updateUser pa d rq now i ub = Inl SuperAdminLimitUpdate"
  using assms by (simp add: updateUser_def superAdmin_limit_check_def superAdmin_count_def)

lemma scope_check_kind:
  assumes "b_role ub = Some ''superAdmin''"
  shows "failure_kind (scope_check pa d rq user ub) \<noteq> Some InvariantViolation"
  using assms by (auto simp: scope_check_def failure_kind_def split: option.splits)

lemma update_kind_cap:
  assumes "b_role ub = Some ''superAdmin''" and "findById (users d) i = Some user"
    and "role user = ''superAdmin'' \<or> superAdmin_count d < MAX_SUPER_ADMINS"
  shows "failure_kind (updateUser pa d rq now i ub) \<noteq> Some InvariantViolation"
proof -
  have lim: "superAdmin_limit_check d i ub = None"
    using assms by (auto simp: superAdmin_limit_check_def superAdmin_count_def)
  show ?thesis
    using assms(2) lim scope_check_kind [OF assms(1), of pa d rq user]
    by (auto simp: updateUser_def role_check_def failure_kind_def
        split: option.splits sum.splits if_splits)
qed

lemma update_superAdmin_succeeds:
  assumes "b_role ub = Some ''superAdmin''" and "findById (users d) i = Some user"
    and "role user = ''superAdmin'' \<or> superAdmin_count d < MAX_SUPER_ADMINS"
    and "userRole rq = ''superAdmin''" and "locales_exist d (b_locales ub)"
  shows "\<exists>d' u'. updateUser pa d rq now i ub = Inr d' \<and> findById (users d') i = Some u'
           \<and> role u' = ''superAdmin''"
proof -
  have uid: "uid user = i" using assms(2) by (rule findById_uid)
  have lim: "superAdmin_limit_check d i ub = None"
    using assms(1-3) by (auto simp: superAdmin_limit_check_def superAdmin_count_def)
  have sc: "scope_check pa d rq user ub = Inr ub"
    using assms(1,4,5) by (auto simp: scope_check_def locales_exist_def split: option.splits)
  have rc: "role_check rq user ub = None"
    using assms(4) by (simp add: role_check_def)
  have pr: "b_role (prepare_update rq now user ub) = Some ''superAdmin''"
    using assms(1) by (simp add: prepare_update_def delete_credentials_def Let_def)
  have vp: "validators_pass (prepare_update rq now user ub)"
    using pr by (simp add: validators_pass_def valid_role_def)
  have res: "updateUser pa d rq now i ub
        = Inr (findByIdAndUpdate i (set_fields (prepare_update rq now user ub)) d)"
    using lim sc rc vp assms(2) by (simp add: updateUser_def)
  have "findById (users (findByIdAndUpdate i (set_fields (prepare_update rq now user ub)) d)) i
        = Some (set_fields (prepare_update rq now user ub) user)"
    using assms(2) uid by (simp add: findByIdAndUpdate_def findById_map_update set_fields_def)
  moreover have "role (set_fields (prepare_update rq now user ub) user) = ''superAdmin''"
    using pr by (simp add: set_fields_def)
  ultimately show ?thesis using res by blast
qed

text \<open>
  C4. A create request with role \<open>superAdmin\<close> is answered with an invariant violation
  exactly when the store already holds \<open>MAX_SUPER_ADMINS = 4\<close> users of role
  \<open>superAdmin\<close>, active or not, and then nothing is stored; below the cap, the request
  of a superAdmin actor that names existing locations and an unused email succeeds and
  stores a new superAdmin. An update request with role \<open>superAdmin\<close> for a stored target
  that is not a superAdmin is answered with an invariant violation exactly when the cap
  is reached, and then nothing is stored; below the cap, the request of a superAdmin
  actor that names existing locations succeeds and the target becomes a superAdmin. When
  the target already is a superAdmin the count does not matter: the answer is never an
  invariant violation, and the superAdmin actor's request succeeds.
\<close>

theorem superAdmin_cap:
  "(c_role cb = Some ''superAdmin'' \<longrightarrow>
      (failure_kind (createUser d rq now newId cb) = Some InvariantViolation
         \<longleftrightarrow> MAX_SUPER_ADMINS \<le> superAdmin_count d)
    \<and> (MAX_SUPER_ADMINS \<le> superAdmin_count d \<longrightarrow>
         createUser d rq now newId cb = Inl SuperAdminLimitCreate
       \<and> db_after d (createUser d rq now newId cb) = d)
    \<and> (userRole rq = ''superAdmin'' \<and> locales_exist d (c_locales cb)
         \<and> findOne (\<lambda>u. email u = c_email cb) (users d) = None \<longrightarrow>
         (if superAdmin_count d < MAX_SUPER_ADMINS
          then createUser d rq now newId cb
                 = Inr (d\<lparr>users := users d @ [new_user rq now newId cb]\<rparr>)
             \<and> role (new_user rq now newId cb) = ''superAdmin''
          else createUser d rq now newId cb = Inl SuperAdminLimitCreate)))
 \<and> (b_role ub = Some ''superAdmin'' \<and> findById (users d) i = Some user \<longrightarrow>
      (failure_kind (updateUser pa d rq now i ub) = Some InvariantViolation
         \<longleftrightarrow> role user \<noteq> ''superAdmin'' \<and> MAX_SUPER_ADMINS \<le> superAdmin_count d)
    \<and> (role user \<noteq> ''superAdmin'' \<and> MAX_SUPER_ADMINS \<le> superAdmin_count d \<longrightarrow>
         updateUser pa d rq now i ub = Inl SuperAdminLimitUpdate
       \<and> db_after d (updateUser pa d rq now i ub) = d)
    \<and> (userRole rq = ''superAdmin'' \<and> locales_exist d (b_locales ub) \<longrightarrow>
         (if role user = ''superAdmin'' \<or> superAdmin_count d < MAX_SUPER_ADMINS
          then \<exists>d' u'. updateUser pa d rq now i ub = Inr d' \<and> findById (users d') i = Some u'
                 \<and> role u' = ''superAdmin''
          else updateUser pa d rq now i ub = Inl SuperAdminLimitUpdate)))"
proof -
  have c1: "failure_kind (createUser d rq now newId cb) = Some InvariantViolation
         \<longleftrightarrow> MAX_SUPER_ADMINS \<le> superAdmin_count d" if "c_role cb = Some ''superAdmin''"
    using create_cap_reached [OF that, of d rq now newId] create_kind_cap [of d rq now newId cb]
    by (cases "MAX_SUPER_ADMINS \<le> superAdmin_count d") (auto simp: failure_kind_def)
  have c2: "createUser d rq now newId cb = Inl SuperAdminLimitCreate
       \<and> db_after d (createUser d rq now newId cb) = d"
    if "c_role cb = Some ''superAdmin''" "MAX_SUPER_ADMINS \<le> superAdmin_count d"
    using create_cap_reached [OF that, of rq now newId] by (simp add: db_after_def)
  have c3: "(if superAdmin_count d < MAX_SUPER_ADMINS
          then createUser d rq now newId cb
                 = Inr (d\<lparr>users := users d @ [new_user rq now newId cb]\<rparr>)
             \<and> role (new_user rq now newId cb) = ''superAdmin''
          else createUser d rq now newId cb = Inl SuperAdminLimitCreate)"
    if "c_role cb = Some ''superAdmin''" "userRole rq = ''superAdmin''"
      "locales_exist d (c_locales cb)" "findOne (\<lambda>u. email u = c_email cb) (users d) = None"
    using create_superAdmin_succeeds [OF that(1) _ that(2,3,4), of now newId]
      create_cap_reached [OF that(1), of d rq now newId]
    by (cases "superAdmin_count d < MAX_SUPER_ADMINS") auto
  have u1: "failure_kind (updateUser pa d rq now i ub) = Some InvariantViolation
         \<longleftrightarrow> role user \<noteq> ''superAdmin'' \<and> MAX_SUPER_ADMINS \<le> superAdmin_count d"
    if "b_role ub = Some ''superAdmin''" "findById (users d) i = Some user"
    using update_cap_reached [OF that, of pa rq now] update_kind_cap [OF that, of pa rq now]
    by (cases "role user \<noteq> ''superAdmin'' \<and> MAX_SUPER_ADMINS \<le> superAdmin_count d")
       (auto simp: failure_kind_def)
  have u2: "updateUser pa d rq now i ub = Inl SuperAdminLimitUpdate
       \<and> db_after d (updateUser pa d rq now i ub) = d"
    if "b_role ub = Some ''superAdmin''" "findById (users d) i = Some user"
      "role user \<noteq> ''superAdmin''" "MAX_SUPER_ADMINS \<le> superAdmin_count d"
    using update_cap_reached [OF that, of pa rq now] by (simp add: db_after_def)
  have u3: "(if role user = ''superAdmin'' \<or> superAdmin_count d < MAX_SUPER_ADMINS
          then \<exists>d' u'. updateUser pa d rq now i ub = Inr d' \<and> findById (users d') i = Some u'
                 \<and> role u' = ''superAdmin''
          else updateUser pa d rq now i ub = Inl SuperAdminLimitUpdate)"
    if "b_role ub = Some ''superAdmin''" "findById (users d) i = Some user"
      "userRole rq = ''superAdmin''" "locales_exist d (b_locales ub)"
    using update_superAdmin_succeeds [OF that(1,2) _ that(3,4), of pa now]
      update_cap_reached [OF that(1,2), of pa rq now]
    by (cases "role user = ''superAdmin'' \<or> superAdmin_count d < MAX_SUPER_ADMINS") auto
  show ?thesis using c1 c2 c3 u1 u2 u3 by blast
qed

lemma full_db_count: "superAdmin_count full_db = 4"
  by (simp add: superAdmin_count_def countDocuments_def full_db_def example_user_def)

lemma example_db_count: "superAdmin_count example_db = 1"
  by (simp add: superAdmin_count_def countDocuments_def example_db_def example_user_def)

theorem superAdmin_cap_witness:
  "createUser full_db (actor ''S1'' ''superAdmin'' []) 7 ''N1''
     (example_create ''eve'' (Some ''superAdmin'') None) = Inl SuperAdminLimitCreate
 \<and> createUser example_db (actor ''S1'' ''superAdmin'' []) 7 ''N1''
     (example_create ''eve'' (Some ''superAdmin'') None)
     = Inr (example_db\<lparr>users := users example_db
              @ [new_user (actor ''S1'' ''superAdmin'' []) 7 ''N1''
                   (example_create ''eve'' (Some ''superAdmin'') None)]\<rparr>)
 \<and> updateUser (\<lambda>_ _. True) full_db (actor ''S1'' ''superAdmin'' []) 7 ''U1''
     (empty_update\<lparr>b_role := Some ''superAdmin''\<rparr>) = Inl SuperAdminLimitUpdate
 \<and> (\<exists>d' u'. updateUser (\<lambda>_ _. True) full_db (actor ''S1'' ''superAdmin'' []) 7 ''S3''
        (empty_update\<lparr>b_role := Some ''superAdmin''\<rparr>) = Inr d'
      \<and> findById (users d') ''S3'' = Some u' \<and> role u' = ''superAdmin'')
 \<and> (\<exists>d' u'. updateUser (\<lambda>_ _. True) example_db (actor ''S1'' ''superAdmin'' []) 7 ''U1''
        (empty_update\<lparr>b_role := Some ''superAdmin''\<rparr>) = Inr d'
      \<and> findById (users d') ''U1'' = Some u' \<and> role u' = ''superAdmin'')"
proof -
  let ?rq = "actor ''S1'' ''superAdmin'' []"
  let ?cb = "example_create ''eve'' (Some ''superAdmin'') None"
  let ?ub = "empty_update\<lparr>b_role := Some ''superAdmin''\<rparr>"
  have cb: "c_role ?cb = Some ''superAdmin''" "locales_exist full_db (c_locales ?cb)"
    "locales_exist example_db (c_locales ?cb)"
    by (simp_all add: example_create_def locales_exist_def)
  have rq: "userRole ?rq = ''superAdmin''" by (simp add: actor_def)
  have ub: "b_role ?ub = Some ''superAdmin''" "locales_exist full_db (b_locales ?ub)"
    "locales_exist example_db (b_locales ?ub)"
    by (simp_all add: empty_update_def locales_exist_def)
  have fresh: "findOne (\<lambda>u. email u = c_email ?cb) (users example_db) = None"
    by (simp add: findOne_def example_db_def example_user_def example_create_def)
  have fU: "findById (users full_db) ''U1'' = Some (example_user ''U1'' ''usuario'' [''L1''] True)"
    by (simp add: findById_def findOne_def full_db_def example_user_def)
  have fS: "findById (users full_db) ''S3'' = Some (example_user ''S3'' ''superAdmin'' [] False)"
    by (simp add: findById_def findOne_def full_db_def example_user_def)
  have eU: "findById (users example_db) ''U1'' = Some (example_user ''U1'' ''usuario'' [''L1''] True)"
    by (simp add: findById_def findOne_def example_db_def example_user_def)
  have roles: "role (example_user ''U1'' ''usuario'' [''L1''] True) \<noteq> ''superAdmin''"
    "role (example_user ''S3'' ''superAdmin'' [] False) = ''superAdmin''"
    by (simp_all add: example_user_def)
  have max: "MAX_SUPER_ADMINS = 4" by (simp add: MAX_SUPER_ADMINS_def)
  have w1: "createUser full_db ?rq 7 ''N1'' ?cb = Inl SuperAdminLimitCreate"
    using superAdmin_cap [where cb = ?cb and d = full_db and rq = ?rq and now = 7
        and newId = "''N1''" and ub = ?ub and i = "''U1''"
        and user = "example_user ''U1'' ''usuario'' [''L1''] True" and pa = "\<lambda>_ _. True"]
      cb full_db_count max by simp
  have w2: "createUser example_db ?rq 7 ''N1'' ?cb
     = Inr (example_db\<lparr>users := users example_db @ [new_user ?rq 7 ''N1'' ?cb]\<rparr>)"
    using superAdmin_cap [where cb = ?cb and d = example_db and rq = ?rq and now = 7
        and newId = "''N1''" and ub = ?ub and i = "''U1''"
        and user = "example_user ''U1'' ''usuario'' [''L1''] True" and pa = "\<lambda>_ _. True"]
      cb rq fresh example_db_count max by simp
  have w3: "updateUser (\<lambda>_ _. True) full_db ?rq 7 ''U1'' ?ub = Inl SuperAdminLimitUpdate"
    using superAdmin_cap [where cb = ?cb and d = full_db and rq = ?rq and now = 7
        and newId = "''N1''" and ub = ?ub and i = "''U1''"
        and user = "example_user ''U1'' ''usuario'' [''L1''] True" and pa = "\<lambda>_ _. True"]
      ub fU roles full_db_count max by simp
  have w4: "\<exists>d' u'. updateUser (\<lambda>_ _. True) full_db ?rq 7 ''S3'' ?ub = Inr d'
      \<and> findById (users d') ''S3'' = Some u' \<and> role u' = ''superAdmin''"
    using superAdmin_cap [where cb = ?cb and d = full_db and rq = ?rq and now = 7
        and newId = "''N1''" and ub = ?ub and i = "''S3''"
        and user = "example_user ''S3'' ''superAdmin'' [] False" and pa = "\<lambda>_ _. True"]
      ub rq fS roles by simp
  have w5: "\<exists>d' u'. updateUser (\<lambda>_ _. True) example_db ?rq 7 ''U1'' ?ub = Inr d'
      \<and> findById (users d') ''U1'' = Some u' \<and> role u' = ''superAdmin''"
    using superAdmin_cap [where cb = ?cb and d = example_db and rq = ?rq and now = 7
        and newId = "''N1''" and ub = ?ub and i = "''U1''"
        and user = "example_user ''U1'' ''usuario'' [''L1''] True" and pa = "\<lambda>_ _. True"]
      ub rq eU example_db_count max by simp
  show ?thesis using w1 w2 w3 w4 w5 by blast
qed

subsection \<open>The last active superAdmin\<close>

text \<open>
  C5. The target is a stored user of role \<open>superAdmin\<close>. Whoever asks, a soft-delete
  or a deactivation of the target succeeds only if at least two superAdmins are active
  before it; with fewer than two the request is rejected and the store is unchanged, so
  the target is as active as it was. When the actor may act on the target (a superAdmin
  for \<^verbatim>\<open>deleteUser\<close>, any role but \<open>admin\<close> for \<^verbatim>\<open>toggleUserStatus\<close>) the
  request succeeds exactly when at least two superAdmins are active: then the target is
  stored inactive and offline, otherwise the answer is the last-superAdmin violation.
\<close>

theorem last_superAdmin_guard:
  assumes found: "findById (users d) i = Some user"
    and target: "role user = ''superAdmin''"
  shows "(\<forall>d'. deleteUser d rq now i = Inr d' \<longrightarrow> 2 \<le> active_superAdmins d)
       \<and> (\<forall>d'. toggleUserStatus d rq now i False = Inr d' \<longrightarrow> 2 \<le> active_superAdmins d)
       \<and> (userRole rq = ''superAdmin'' \<longrightarrow>
            (if 2 \<le> active_superAdmins d
             then \<exists>d' u'. deleteUser d rq now i = Inr d' \<and> findById (users d') i = Some u'
                    \<and> \<not> activo u' \<and> \<not> enLinea u'
             else deleteUser d rq now i = Inl LastSuperAdminDelete))
       \<and> (userRole rq \<noteq> ''admin'' \<longrightarrow>
            (if 2 \<le> active_superAdmins d
             then \<exists>d' u'. toggleUserStatus d rq now i False = Inr d'
                    \<and> findById (users d') i = Some u' \<and> \<not> activo u' \<and> \<not> enLinea u'
             else toggleUserStatus d rq now i False = Inl LastSuperAdminDeactivate))
       \<and> (active_superAdmins d < 2 \<longrightarrow>
            failure_kind (deleteUser d rq now i) \<noteq> None
          \<and> failure_kind (toggleUserStatus d rq now i False) \<noteq> None
          \<and> db_after d (deleteUser d rq now i) = d
          \<and> db_after d (toggleUserStatus d rq now i False) = d)"
proof -
  have uid: "uid user = i" using found by (rule findById_uid)
  have del_only: "\<forall>d'. deleteUser d rq now i = Inr d' \<longrightarrow> 2 \<le> active_superAdmins d"
    using found target by (auto simp: deleteUser_def active_superAdmins_def split: if_splits)
  have tog_only: "\<forall>d'. toggleUserStatus d rq now i False = Inr d' \<longrightarrow> 2 \<le> active_superAdmins d"
    using found target
    by (auto simp: toggleUserStatus_def populated_def Let_def active_superAdmins_def
        split: if_splits)
  have del: "userRole rq = ''superAdmin'' \<longrightarrow>
            (if 2 \<le> active_superAdmins d
             then \<exists>d' u'. deleteUser d rq now i = Inr d' \<and> findById (users d') i = Some u'
                    \<and> \<not> activo u' \<and> \<not> enLinea u'
             else deleteUser d rq now i = Inl LastSuperAdminDelete)"
    using found target uid
    by (auto simp: deleteUser_def active_superAdmins_def findByIdAndUpdate_def findById_map_update)
  have tog: "userRole rq \<noteq> ''admin'' \<longrightarrow>
            (if 2 \<le> active_superAdmins d
             then \<exists>d' u'. toggleUserStatus d rq now i False = Inr d'
                    \<and> findById (users d') i = Some u' \<and> \<not> activo u' \<and> \<not> enLinea u'
             else toggleUserStatus d rq now i False = Inl LastSuperAdminDeactivate)"
    using found target uid
    by (auto simp: toggleUserStatus_def populated_def Let_def active_superAdmins_def save_def
        findByIdAndUpdate_def findById_map_update)
  have unchanged: "active_superAdmins d < 2 \<longrightarrow>
            failure_kind (deleteUser d rq now i) \<noteq> None
          \<and> failure_kind (toggleUserStatus d rq now i False) \<noteq> None
          \<and> db_after d (deleteUser d rq now i) = d
          \<and> db_after d (toggleUserStatus d rq now i False) = d"
    using found target
    by (auto simp: db_after_def deleteUser_def toggleUserStatus_def populated_def Let_def
        active_superAdmins_def failure_kind_def)
  show ?thesis using del_only tog_only del tog unchanged by blast
qed

lemma full_db_active: "active_superAdmins full_db = 2"
  by (simp add: active_superAdmins_def countDocuments_def full_db_def example_user_def)

lemma example_db_active: "active_superAdmins example_db = 1"
  by (simp add: active_superAdmins_def countDocuments_def example_db_def example_user_def)

theorem last_superAdmin_guard_witness:
  "deleteUser example_db (actor ''S1'' ''superAdmin'' []) 7 ''S1'' = Inl LastSuperAdminDelete
 \<and> toggleUserStatus example_db (actor ''S1'' ''superAdmin'' []) 7 ''S1'' False
     = Inl LastSuperAdminDeactivate
 \<and> (\<exists>d' u'. deleteUser full_db (actor ''S1'' ''superAdmin'' []) 7 ''S2'' = Inr d'
       \<and> findById (users d') ''S2'' = Some u' \<and> \<not> activo u' \<and> \<not> enLinea u')
 \<and> (\<exists>d' u'. toggleUserStatus full_db (actor ''S1'' ''superAdmin'' []) 7 ''S2'' False = Inr d'
       \<and> findById (users d') ''S2'' = Some u' \<and> \<not> activo u' \<and> \<not> enLinea u')"
proof -
  let ?rq = "actor ''S1'' ''superAdmin'' []"
  have rq: "userRole ?rq = ''superAdmin''" "userRole ?rq \<noteq> ''admin''" by (simp_all add: actor_def)
  have f1: "findById (users example_db) ''S1'' = Some (example_user ''S1'' ''superAdmin'' [] True)"
    by (simp add: findById_def findOne_def example_db_def example_user_def)
  have f2: "findById (users full_db) ''S2'' = Some (example_user ''S2'' ''superAdmin'' [] True)"
    by (simp add: findById_def findOne_def full_db_def example_user_def)
  have r: "role (example_user ''S1'' ''superAdmin'' [] True) = ''superAdmin''"
    "role (example_user ''S2'' ''superAdmin'' [] True) = ''superAdmin''"
    by (simp_all add: example_user_def)
  show ?thesis
    using last_superAdmin_guard [OF f1 r(1), of ?rq 7] last_superAdmin_guard [OF f2 r(2), of ?rq 7]
      rq full_db_active example_db_active
    by simp
qed

subsection \<open>The last active admin of a location\<close>

text \<open>
  C1, evaluated on \<open>example_db\<close>. The admin \<open>A2\<close> serves \<open>L1\<close> and \<open>L2\<close> and is the
  only active admin of \<open>L2\<close>. \<^verbatim>\<open>deleteUser\<close>, asked by a superAdmin, does not reject:
  it stores \<open>A2\<close> inactive and \<open>L2\<close> is left with no active admin. \<^verbatim>\<open>toggleUserStatus\<close>
  rejects the deactivation of the same user.
\<close>

theorem deleteUser_skips_location_guard:
  "active_admins_at example_db ''L2'' = 1
 \<and> map_option role (findById (users example_db) ''A2'') = Some ''admin''
 \<and> map_option locales (findById (users example_db) ''A2'') = Some [''L1'', ''L2'']
 \<and> failure_kind (deleteUser example_db (actor ''S1'' ''superAdmin'' []) 7 ''A2'') = None
 \<and> map_option activo
      (findById (users (db_after example_db
         (deleteUser example_db (actor ''S1'' ''superAdmin'' []) 7 ''A2''))) ''A2'') = Some False
 \<and> active_admins_at
      (db_after example_db (deleteUser example_db (actor ''S1'' ''superAdmin'' []) 7 ''A2''))
      ''L2'' = 0
 \<and> toggleUserStatus example_db (actor ''S1'' ''superAdmin'' []) 7 ''A2'' False
      = Inl (LastAdminOfLocalDeactivate ''L2'')"
  by (simp add: active_admins_at_def countDocuments_def example_db_def example_user_def
      findById_def findOne_def deleteUser_def toggleUserStatus_def actor_def failure_kind_def
      db_after_def findByIdAndUpdate_def first_local_def populated_def populate_def
      Local_exists_def Let_def)

lemma last_admin_local_None:
  "last_admin_local (users d) ls = None \<longleftrightarrow> list_all (\<lambda>l. 2 \<le> active_admins_at d l) ls"
  by (induction ls) (auto simp: active_admins_at_def)

lemma last_admin_local_Some:
  "last_admin_local (users d) ls = Some l \<Longrightarrow> l \<in> set ls \<and> active_admins_at d l \<le> 1"
  by (induction ls) (auto simp: active_admins_at_def split: if_splits)

text \<open>
  The sibling path. \<^verbatim>\<open>toggleUserStatus\<close> checks every location of the populated
  target, that is, every location of the target that exists: the deactivation of a stored
  admin succeeds only if each of them has at least two active admins; asked by an actor
  that is not an admin, it succeeds exactly then, and otherwise it is rejected with an
  invariant violation that names such a location with at most one active admin, and the
  store is unchanged.
\<close>

theorem toggle_admin_location_guard:
  assumes found: "findById (users d) i = Some user"
    and target: "role user = ''admin''"
  shows "(\<forall>d'. toggleUserStatus d rq now i False = Inr d' \<longrightarrow>
            list_all (\<lambda>l. 2 \<le> active_admins_at d l) (populate d (locales user)))
       \<and> (userRole rq \<noteq> ''admin'' \<longrightarrow>
            (if list_all (\<lambda>l. 2 \<le> active_admins_at d l) (populate d (locales user))
             then \<exists>d' u'. toggleUserStatus d rq now i False = Inr d'
                    \<and> findById (users d') i = Some u' \<and> \<not> activo u' \<and> \<not> enLinea u'
             else failure_kind (toggleUserStatus d rq now i False) = Some InvariantViolation
                \<and> (\<exists>l. toggleUserStatus d rq now i False = Inl (LastAdminOfLocalDeactivate l)
                      \<and> l \<in> set (populate d (locales user)) \<and> active_admins_at d l \<le> 1)
                \<and> db_after d (toggleUserStatus d rq now i False) = d))"
proof -
  have uid: "uid user = i" using found by (rule findById_uid)
  note none = last_admin_local_None [of d "populate d (locales user)"]
  have only: "\<forall>d'. toggleUserStatus d rq now i False = Inr d' \<longrightarrow>
            list_all (\<lambda>l. 2 \<le> active_admins_at d l) (populate d (locales user))"
  proof (cases "populate d (locales user) = []")
    case True
    then show ?thesis by simp
  next
    case False
    then show ?thesis
      using found target none
      by (auto simp: toggleUserStatus_def populated_def Let_def split: if_splits)
  qed
  have ok: "\<exists>d' u'. toggleUserStatus d rq now i False = Inr d'
                    \<and> findById (users d') i = Some u' \<and> \<not> activo u' \<and> \<not> enLinea u'"
    if "userRole rq \<noteq> ''admin''" "list_all (\<lambda>l. 2 \<le> active_admins_at d l) (populate d (locales user))"
    using found target uid that none
    by (auto simp: toggleUserStatus_def populated_def Let_def save_def findByIdAndUpdate_def
        findById_map_update)
  have rej: "failure_kind (toggleUserStatus d rq now i False) = Some InvariantViolation
                \<and> (\<exists>l. toggleUserStatus d rq now i False = Inl (LastAdminOfLocalDeactivate l)
                      \<and> l \<in> set (populate d (locales user)) \<and> active_admins_at d l \<le> 1)
                \<and> db_after d (toggleUserStatus d rq now i False) = d"
    if "userRole rq \<noteq> ''admin''" "\<not> list_all (\<lambda>l. 2 \<le> active_admins_at d l) (populate d (locales user))"
  proof -
    from that(2) none obtain l where l: "last_admin_local (users d) (populate d (locales user)) = Some l"
      by auto
    have ne: "populate d (locales user) \<noteq> []" using that(2) by auto
    have "toggleUserStatus d rq now i False = Inl (LastAdminOfLocalDeactivate l)"
      using found target that(1) l ne by (simp add: toggleUserStatus_def populated_def Let_def)
    then show ?thesis
      using last_admin_local_Some [OF l] by (simp add: failure_kind_def db_after_def)
  qed
  show ?thesis using only ok rej by auto
qed

theorem toggle_admin_location_guard_witness:
  "toggleUserStatus example_db (actor ''S1'' ''superAdmin'' []) 7 ''A2'' False
     = Inl (LastAdminOfLocalDeactivate ''L2'')
 \<and> (\<exists>d' u'. toggleUserStatus example_db (actor ''S1'' ''superAdmin'' []) 7 ''A1'' False = Inr d'
        \<and> findById (users d') ''A1'' = Some u' \<and> \<not> activo u' \<and> \<not> enLinea u')"
proof -
  let ?rq = "actor ''S1'' ''superAdmin'' []"
  let ?A1 = "example_user ''A1'' ''admin'' [''L1''] True"
  let ?A2 = "example_user ''A2'' ''admin'' [''L1'', ''L2''] True"
  have rq: "userRole ?rq \<noteq> ''admin''" by (simp add: actor_def)
  have f1: "findById (users example_db) ''A1'' = Some ?A1"
    by (simp add: findById_def findOne_def example_db_def example_user_def)
  have f2: "findById (users example_db) ''A2'' = Some ?A2"
    by (simp add: findById_def findOne_def example_db_def example_user_def)
  have r: "role ?A1 = ''admin''" "role ?A2 = ''admin''" by (simp_all add: example_user_def)
  have c: "active_admins_at example_db ''L1'' = 2" "active_admins_at example_db ''L2'' = 1"
    by (simp_all add: active_admins_at_def countDocuments_def example_db_def example_user_def)
  have l: "populate example_db (locales ?A1) = [''L1'']"
    "populate example_db (locales ?A2) = [''L1'', ''L2'']"
    by (simp_all add: example_user_def populate_def Local_exists_def example_db_def)
  have w1: "\<exists>d' u'. toggleUserStatus example_db ?rq 7 ''A1'' False = Inr d'
        \<and> findById (users d') ''A1'' = Some u' \<and> \<not> activo u' \<and> \<not> enLinea u'"
    using toggle_admin_location_guard [OF f1 r(1), of ?rq 7] rq c l by simp
  from toggle_admin_location_guard [OF f2 r(2), of ?rq 7] rq c l
  obtain x where "toggleUserStatus example_db ?rq 7 ''A2'' False = Inl (LastAdminOfLocalDeactivate x)"
    and "x \<in> set [''L1'', ''L2'']" and "active_admins_at example_db x \<le> 1"
    by auto
  then have w2: "toggleUserStatus example_db ?rq 7 ''A2'' False = Inl (LastAdminOfLocalDeactivate ''L2'')"
    using c by auto
  show ?thesis using w1 w2 by blast
qed

subsection \<open>What an admin actor may read and update\<close>

text \<open>
  C2 does not hold for \<^verbatim>\<open>updateUser\<close>. Four superAdmins are stored. The admin
  actor \<open>A2\<close> asks to update the admin \<open>A1\<close> with a body whose role is \<open>superAdmin\<close>:
  the answer is the cap violation, not a forbidden response. The cap guard runs before
  \<^verbatim>\<open>puedeAdministrar\<close> is asked, so the answer is the same with the policy of the
  specification and with a policy that accepts every target.
\<close>

theorem admin_update_at_cap_counterexample:
  "userRole (actor ''A2'' ''admin'' [''L1'']) = ''admin''
 \<and> map_option role (findById (users full_db_with_admin) ''A1'') = Some ''admin''
 \<and> MAX_SUPER_ADMINS \<le> superAdmin_count full_db_with_admin
 \<and> updateUser puedeAdministrar full_db_with_admin (actor ''A2'' ''admin'' [''L1'']) 7 ''A1''
      (empty_update\<lparr>b_role := Some ''superAdmin''\<rparr>) = Inl SuperAdminLimitUpdate
 \<and> failure_kind
      (updateUser puedeAdministrar full_db_with_admin (actor ''A2'' ''admin'' [''L1'']) 7 ''A1''
         (empty_update\<lparr>b_role := Some ''superAdmin''\<rparr>)) \<noteq> Some Forbidden
 \<and> updateUser always_allowed full_db_with_admin (actor ''A2'' ''admin'' [''L1'']) 7 ''A1''
      (empty_update\<lparr>b_role := Some ''superAdmin''\<rparr>) = Inl SuperAdminLimitUpdate"
  by (simp add: full_db_with_admin_def full_db_def example_user_def actor_def findById_def
      findOne_def updateUser_def superAdmin_limit_check_def superAdmin_count_def
      countDocuments_def MAX_SUPER_ADMINS_def empty_update_def failure_kind_def)

lemma update_admin_actor:
  assumes "userRole rq = ''admin''" and "findById (users d) i = Some target"
    and "superAdmin_limit_check d i ub = None"
  shows "updateUser pa d rq now i ub =
          (if \<not> pa rq target then Inl EditForbidden
           else if role target = ''superAdmin'' then Inl ModifySuperAdminForbidden
           else Inr (findByIdAndUpdate i
                  (set_fields (prepare_update rq now target
                     (ub\<lparr>b_role := None, b_locales := None, b_localPrincipal := None\<rparr>))) d))"
  using assms
  by (simp add: updateUser_def scope_check_def role_check_def validators_pass_def
      prepare_update_def delete_credentials_def has_locales_def Let_def)

lemma getUserById_admin_actor:
  assumes "userRole rq = ''admin''" and "findById (users d) i = Some target"
  shows "getUserById d rq i = Inl ViewForbidden"
  using assms by (simp add: getUserById_def list_ex_iff)

text \<open>
  C2, amended. The actor is an admin and the target is a stored user of role \<open>admin\<close>
  or \<open>superAdmin\<close>. \<^verbatim>\<open>getUserById\<close> answers with a forbidden response, whatever the
  locations of the two. \<^verbatim>\<open>updateUser\<close> answers a target of role \<open>superAdmin\<close> with a
  forbidden response, whatever \<^verbatim>\<open>puedeAdministrar\<close> says. With \<^verbatim>\<open>puedeAdministrar\<close>
  as the specification describes it, \<^verbatim>\<open>updateUser\<close> answers a target of role
  \<open>admin\<close> with a forbidden response too, except when the body's role is \<open>superAdmin\<close>
  and the superAdmin cap is reached: then the answer is the cap violation.
\<close>

theorem admin_actor_denials:
  assumes actor: "userRole rq = ''admin''"
    and found: "findById (users d) i = Some target"
    and target: "role target = ''admin'' \<or> role target = ''superAdmin''"
  shows "failure_kind (getUserById d rq i) = Some Forbidden
       \<and> (role target = ''superAdmin'' \<longrightarrow>
            failure_kind (updateUser pa d rq now i ub) = Some Forbidden)
       \<and> (if role target = ''admin'' \<and> b_role ub = Some ''superAdmin''
              \<and> MAX_SUPER_ADMINS \<le> superAdmin_count d
           then updateUser puedeAdministrar d rq now i ub = Inl SuperAdminLimitUpdate
           else failure_kind (updateUser puedeAdministrar d rq now i ub) = Some Forbidden)"
proof -
  have view: "failure_kind (getUserById d rq i) = Some Forbidden"
    using getUserById_admin_actor [OF actor found] by (simp add: failure_kind_def)
  have lim_super: "superAdmin_limit_check d i ub = None" if "role target = ''superAdmin''"
    using found that by (simp add: superAdmin_limit_check_def)
  have upd_super: "failure_kind (updateUser pa' d rq now i ub) = Some Forbidden"
    if "role target = ''superAdmin''" for pa'
    using update_admin_actor [OF actor found lim_super [OF that], of pa' now] that
    by (simp add: failure_kind_def)
  have at_cap: "updateUser puedeAdministrar d rq now i ub = Inl SuperAdminLimitUpdate"
    if "role target = ''admin''" "b_role ub = Some ''superAdmin''"
      "MAX_SUPER_ADMINS \<le> superAdmin_count d"
    using update_cap_reached [OF that(2) found _ that(3), of puedeAdministrar rq now] that(1)
    by simp
  have below: "failure_kind (updateUser puedeAdministrar d rq now i ub) = Some Forbidden"
    if adm: "role target = ''admin''"
      and free: "\<not> (b_role ub = Some ''superAdmin'' \<and> MAX_SUPER_ADMINS \<le> superAdmin_count d)"
  proof -
    have lim: "superAdmin_limit_check d i ub = None"
      using found free
      by (auto simp: superAdmin_limit_check_def superAdmin_count_def)
    have rejects: "\<not> puedeAdministrar rq target"
      using adm by (simp add: puedeAdministrar_def)
    show ?thesis
      using update_admin_actor [OF actor found lim, of puedeAdministrar now] rejects
      by (simp add: failure_kind_def)
  qed
  show ?thesis
    using view upd_super [of pa] upd_super [of puedeAdministrar] at_cap below target by auto
qed

theorem admin_actor_denials_witness:
  "failure_kind (getUserById example_db (actor ''A1'' ''admin'' [''L1'']) ''A2'') = Some Forbidden
 \<and> failure_kind (getUserById example_db (actor ''A1'' ''admin'' [''L1'']) ''S1'') = Some Forbidden
 \<and> failure_kind (updateUser puedeAdministrar example_db (actor ''A1'' ''admin'' [''L1'']) 7 ''S1''
      empty_update) = Some Forbidden
 \<and> failure_kind (updateUser puedeAdministrar example_db (actor ''A1'' ''admin'' [''L1'']) 7 ''A2''
      (empty_update\<lparr>b_nombre := Some ''Eva''\<rparr>)) = Some Forbidden
 \<and> updateUser puedeAdministrar full_db_with_admin (actor ''A2'' ''admin'' [''L1'']) 7 ''A1''
      (empty_update\<lparr>b_role := Some ''superAdmin''\<rparr>) = Inl SuperAdminLimitUpdate"
proof -
  let ?rq = "actor ''A1'' ''admin'' [''L1'']"
  let ?rq2 = "actor ''A2'' ''admin'' [''L1'']"
  let ?S1 = "example_user ''S1'' ''superAdmin'' [] True"
  let ?A1 = "example_user ''A1'' ''admin'' [''L1''] True"
  let ?A2 = "example_user ''A2'' ''admin'' [''L1'', ''L2''] True"
  let ?name = "empty_update\<lparr>b_nombre := Some ''Eva''\<rparr>"
  let ?promote = "empty_update\<lparr>b_role := Some ''superAdmin''\<rparr>"
  have rq: "userRole ?rq = ''admin''" "userRole ?rq2 = ''admin''" by (simp_all add: actor_def)
  have fS: "findById (users example_db) ''S1'' = Some ?S1"
    by (simp add: findById_def findOne_def example_db_def example_user_def)
  have fA2: "findById (users example_db) ''A2'' = Some ?A2"
    by (simp add: findById_def findOne_def example_db_def example_user_def)
  have fA1: "findById (users full_db_with_admin) ''A1'' = Some ?A1"
    by (simp add: findById_def findOne_def full_db_with_admin_def full_db_def example_user_def)
  have roles: "role ?S1 = ''superAdmin''" "role ?A1 = ''admin''" "role ?A2 = ''admin''"
    by (simp_all add: example_user_def)
  have bodies: "b_role empty_update = None" "b_role ?name = None"
    "b_role ?promote = Some ''superAdmin''"
    by (simp_all add: empty_update_def)
  have cap: "MAX_SUPER_ADMINS \<le> superAdmin_count full_db_with_admin"
    by (simp add: superAdmin_count_def countDocuments_def full_db_with_admin_def full_db_def
        example_user_def MAX_SUPER_ADMINS_def)
  have w1: "failure_kind (getUserById example_db ?rq ''A2'') = Some Forbidden
      \<and> failure_kind (updateUser puedeAdministrar example_db ?rq 7 ''A2'' ?name) = Some Forbidden"
    using admin_actor_denials [OF rq(1) fA2, of puedeAdministrar 7 ?name] roles bodies by simp
  have w2: "failure_kind (getUserById example_db ?rq ''S1'') = Some Forbidden
      \<and> failure_kind (updateUser puedeAdministrar example_db ?rq 7 ''S1'' empty_update)
          = Some Forbidden"
    using admin_actor_denials [OF rq(1) fS, of puedeAdministrar 7 empty_update] roles by simp
  have w3: "updateUser puedeAdministrar full_db_with_admin ?rq2 7 ''A1'' ?promote
      = Inl SuperAdminLimitUpdate"
    using admin_actor_denials [OF rq(2) fA1, of puedeAdministrar 7 ?promote] roles bodies cap
    by simp
  show ?thesis using w1 w2 w3 by blast
qed

subsection \<open>What an admin actor may create\<close>

text \<open>
  C3 does not hold as stated. An admin actor that asks for role \<open>superAdmin\<close> while the
  cap is reached is answered with the cap violation, not with a forbidden response. And
  an admin actor that names no location has \<^verbatim>\<open>req.body.locales\<close> set to its own
  locations, but the user is stored with no location.
\<close>

theorem admin_create_counterexample:
  "userRole (actor ''A1'' ''admin'' [''L1'']) = ''admin''
 \<and> createUser full_db (actor ''A1'' ''admin'' [''L1'']) 7 ''N1''
      (example_create ''eve'' (Some ''superAdmin'') None) = Inl SuperAdminLimitCreate
 \<and> failure_kind (createUser full_db (actor ''A1'' ''admin'' [''L1'']) 7 ''N1''
      (example_create ''eve'' (Some ''superAdmin'') None)) \<noteq> Some Forbidden
 \<and> failure_kind (createUser example_db (actor ''A1'' ''admin'' [''L1'']) 7 ''N1''
      (example_create ''eve'' None None)) = None
 \<and> map_option locales
      (findById (users (db_after example_db
         (createUser example_db (actor ''A1'' ''admin'' [''L1'']) 7 ''N1''
            (example_create ''eve'' None None)))) ''N1'') = Some []
 \<and> c_locales (req_body_after_defaults (actor ''A1'' ''admin'' [''L1''])
      (example_create ''eve'' None None)) = Some [''L1'']"
  by (simp add: createUser_def full_db_def example_db_def example_user_def actor_def
      example_create_def countDocuments_def MAX_SUPER_ADMINS_def failure_kind_def
      findOne_def findById_def db_after_def new_user_def created_user_def has_locales_def
      valid_role_def req_body_after_defaults_def Let_def)

lemma create_admin_actor:
  assumes "userRole rq = ''admin''"
  shows "createUser d rq now newId cb =
     (if c_role cb = Some ''superAdmin'' \<and> MAX_SUPER_ADMINS \<le> superAdmin_count d
      then Inl SuperAdminLimitCreate
      else if truthy (c_role cb) \<and> c_role cb \<noteq> Some ''usuario'' then Inl CreateRoleForbidden
      else if has_locales (c_locales cb)
           \<and> \<not> list_all (\<lambda>l. l \<in> set (user_locales rq)) (the (c_locales cb))
      then Inl CreateLocalesForbidden
      else if findOne (\<lambda>u. email u = c_email cb) (users d) \<noteq> None then Inl EmailTaken
      else Inr (d\<lparr>users := users d @ [new_user rq now newId cb]\<rparr>))"
proof -
  have ex: "list_ex (\<lambda>adminLocal. adminLocal = l) ls \<longleftrightarrow> l \<in> set ls" for l :: oid and ls
    by (auto simp: list_ex_iff)
  have valid: "valid_role (role (new_user rq now newId cb))"
    if "\<not> (truthy (c_role cb) \<and> c_role cb \<noteq> Some ''usuario'')"
    using that by (auto simp: new_user_def created_user_def valid_role_def Let_def)
  show ?thesis
    using assms valid
    by (simp add: createUser_def superAdmin_count_def Let_def ex)
qed

text \<open>
  C3, amended. The actor is an admin. A requested role other than \<open>usuario\<close> is
  rejected: with the cap violation when the role is \<open>superAdmin\<close> and the cap is
  reached, as forbidden otherwise. With role \<open>usuario\<close> or none, locations that are
  supplied must all be the actor's own, otherwise the request is forbidden; when they
  are, and the email is unused, the user is stored with role \<open>usuario\<close> and the supplied
  locations. With role \<open>usuario\<close> or none, no location supplied and an unused email, the
  request is not rejected.
\<close>

theorem admin_create_policy:
  assumes actor: "userRole rq = ''admin''"
  shows "(truthy (c_role cb) \<and> c_role cb \<noteq> Some ''usuario'' \<longrightarrow>
            createUser d rq now newId cb
              = (if c_role cb = Some ''superAdmin'' \<and> MAX_SUPER_ADMINS \<le> superAdmin_count d
                 then Inl SuperAdminLimitCreate else Inl CreateRoleForbidden))
       \<and> (\<not> (truthy (c_role cb) \<and> c_role cb \<noteq> Some ''usuario'') \<and> has_locales (c_locales cb) \<longrightarrow>
            (if list_all (\<lambda>l. l \<in> set (user_locales rq)) (the (c_locales cb))
             then findOne (\<lambda>u. email u = c_email cb) (users d) = None \<longrightarrow>
                    createUser d rq now newId cb
                      = Inr (d\<lparr>users := users d @ [new_user rq now newId cb]\<rparr>)
                  \<and> role (new_user rq now newId cb) = ''usuario''
                  \<and> locales (new_user rq now newId cb) = the (c_locales cb)
             else createUser d rq now newId cb = Inl CreateLocalesForbidden))
       \<and> (\<not> (truthy (c_role cb) \<and> c_role cb \<noteq> Some ''usuario'') \<and> \<not> has_locales (c_locales cb)
            \<and> findOne (\<lambda>u. email u = c_email cb) (users d) = None \<longrightarrow>
            failure_kind (createUser d rq now newId cb) = None)"
proof -
  note eq = create_admin_actor [OF actor, of d now newId cb]
  have nu: "role (new_user rq now newId cb) = ''usuario''
          \<and> locales (new_user rq now newId cb) = the (c_locales cb)"
    if "\<not> (truthy (c_role cb) \<and> c_role cb \<noteq> Some ''usuario'')" "has_locales (c_locales cb)"
    using that by (auto simp: new_user_def created_user_def Let_def)
  have p1: "truthy (c_role cb) \<and> c_role cb \<noteq> Some ''usuario'' \<longrightarrow>
            createUser d rq now newId cb
              = (if c_role cb = Some ''superAdmin'' \<and> MAX_SUPER_ADMINS \<le> superAdmin_count d
                 then Inl SuperAdminLimitCreate else Inl CreateRoleForbidden)"
    using eq by simp
  have p2: "\<not> (truthy (c_role cb) \<and> c_role cb \<noteq> Some ''usuario'') \<and> has_locales (c_locales cb) \<longrightarrow>
            (if list_all (\<lambda>l. l \<in> set (user_locales rq)) (the (c_locales cb))
             then findOne (\<lambda>u. email u = c_email cb) (users d) = None \<longrightarrow>
                    createUser d rq now newId cb
                      = Inr (d\<lparr>users := users d @ [new_user rq now newId cb]\<rparr>)
                  \<and> role (new_user rq now newId cb) = ''usuario''
                  \<and> locales (new_user rq now newId cb) = the (c_locales cb)
             else createUser d rq now newId cb = Inl CreateLocalesForbidden)"
    using eq nu by auto
  have p3: "\<not> (truthy (c_role cb) \<and> c_role cb \<noteq> Some ''usuario'') \<and> \<not> has_locales (c_locales cb)
            \<and> findOne (\<lambda>u. email u = c_email cb) (users d) = None \<longrightarrow>
            failure_kind (createUser d rq now newId cb) = None"
    using eq by (auto simp: failure_kind_def)
  show ?thesis using p1 p2 p3 by blast
qed

theorem admin_create_policy_witness:
  "createUser example_db (actor ''A1'' ''admin'' [''L1'']) 7 ''N1''
     (example_create ''eve'' (Some ''admin'') None) = Inl CreateRoleForbidden
 \<and> createUser example_db (actor ''A1'' ''admin'' [''L1'']) 7 ''N1''
     (example_create ''eve'' None (Some [''L1'', ''L2''])) = Inl CreateLocalesForbidden
 \<and> createUser example_db (actor ''A1'' ''admin'' [''L1'']) 7 ''N1''
     (example_create ''eve'' (Some ''usuario'') (Some [''L1'']))
     = Inr (example_db\<lparr>users := users example_db
             @ [new_user (actor ''A1'' ''admin'' [''L1'']) 7 ''N1''
                  (example_create ''eve'' (Some ''usuario'') (Some [''L1'']))]\<rparr>)
 \<and> locales (new_user (actor ''A1'' ''admin'' [''L1'']) 7 ''N1''
      (example_create ''eve'' (Some ''usuario'') (Some [''L1'']))) = [''L1'']
 \<and> failure_kind (createUser example_db (actor ''A1'' ''admin'' [''L1'']) 7 ''N1''
      (example_create ''eve'' None None)) = None"
proof -
  let ?rq = "actor ''A1'' ''admin'' [''L1'']"
  have rq: "userRole ?rq = ''admin''" "user_locales ?rq = [''L1'']" by (simp_all add: actor_def)
  have fresh: "findOne (\<lambda>u. email u = c_email (example_create ''eve'' r ls)) (users example_db) = None"
    for r ls
    by (simp add: findOne_def example_db_def example_user_def example_create_def)
  have cnt: "superAdmin_count example_db = 1"
    by (simp add: superAdmin_count_def countDocuments_def example_db_def example_user_def)
  show ?thesis
    using admin_create_policy [OF rq(1), of "example_create ''eve'' (Some ''admin'') None" example_db 7 "''N1''"]
      admin_create_policy [OF rq(1), of "example_create ''eve'' None (Some [''L1'', ''L2''])" example_db 7 "''N1''"]
      admin_create_policy [OF rq(1), of "example_create ''eve'' (Some ''usuario'') (Some [''L1''])" example_db 7 "''N1''"]
      admin_create_policy [OF rq(1), of "example_create ''eve'' None None" example_db 7 "''N1''"]
      fresh rq(2) cnt
    by (simp add: example_create_def has_locales_def MAX_SUPER_ADMINS_def)
qed

subsection \<open>What an update writes\<close>

lemma uid_set_fields [simp]: "uid (set_fields s u) = uid u"
  by (simp add: set_fields_def)

lemma update_success_form:
  assumes "findById (users d) i = Some target" and "updateUser pa d rq now i ub = Inr d'"
  shows "d' = findByIdAndUpdate i
           (set_fields (prepare_update rq now target
              (if userRole rq = ''admin''
               then ub\<lparr>b_role := None, b_locales := None, b_localPrincipal := None\<rparr>
               else ub))) d"
  using assms
  by (auto simp: updateUser_def scope_check_def split: option.splits sum.splits if_splits)

lemma stored_after_update:
  assumes "findById (users d) i = Some target"
  shows "findById (users (findByIdAndUpdate i (set_fields s) d)) i = Some (set_fields s target)"
  using assms findById_uid [OF assms]
  by (simp add: findByIdAndUpdate_def findById_map_update)

lemma prepare_update_admin:
  "prepare_update rq now target (ub\<lparr>b_role := None, b_locales := None, b_localPrincipal := None\<rparr>)
     = (delete_credentials ub)\<lparr>b_role := None, b_locales := None, b_localPrincipal := None,
          b_ultimaModificacion := Some (userId rq, now)\<rparr>"
  by (simp add: prepare_update_def delete_credentials_def has_locales_def Let_def)

lemma prepare_update_credentials:
  "b_password (prepare_update rq now target ud) = None
 \<and> b_intentosFallidos (prepare_update rq now target ud) = None
 \<and> b_bloqueadoHasta (prepare_update rq now target ud) = None
 \<and> b_passwordResetToken (prepare_update rq now target ud) = None
 \<and> b_passwordResetExpires (prepare_update rq now target ud) = None"
  by (simp add: prepare_update_def delete_credentials_def Let_def)

lemma set_fields_credentials:
  assumes "b_password s = None" "b_intentosFallidos s = None" "b_bloqueadoHasta s = None"
    "b_passwordResetToken s = None" "b_passwordResetExpires s = None"
  shows "password (set_fields s u) = password u
       \<and> intentosFallidos (set_fields s u) = intentosFallidos u
       \<and> bloqueadoHasta (set_fields s u) = bloqueadoHasta u
       \<and> passwordResetToken (set_fields s u) = passwordResetToken u
       \<and> passwordResetExpires (set_fields s u) = passwordResetExpires u"
  using assms by (simp add: set_fields_def)

text \<open>
  C6 does not hold as stated. The admin actor \<open>A1\<close> updates the plain user \<open>U1\<close> of
  its own location with a body that holds a name and role \<open>superAdmin\<close>, while four
  superAdmins exist: the request is rejected with the cap violation and nothing is
  written, although the role would have been stripped.
\<close>

theorem update_strip_counterexample:
  "userRole (actor ''A1'' ''admin'' [''L1'']) = ''admin''
 \<and> map_option role (findById (users full_db) ''U1'') = Some ''usuario''
 \<and> map_option (always_allowed (actor ''A1'' ''admin'' [''L1''])) (findById (users full_db) ''U1'')
      = Some True
 \<and> map_option (shares_local (actor ''A1'' ''admin'' [''L1''])) (findById (users full_db) ''U1'')
      = Some True
 \<and> updateUser always_allowed full_db (actor ''A1'' ''admin'' [''L1'']) 7 ''U1''
      (empty_update\<lparr>b_nombre := Some ''Eva'', b_role := Some ''superAdmin''\<rparr>)
      = Inl SuperAdminLimitUpdate
 \<and> db_after full_db
      (updateUser always_allowed full_db (actor ''A1'' ''admin'' [''L1'']) 7 ''U1''
         (empty_update\<lparr>b_nombre := Some ''Eva'', b_role := Some ''superAdmin''\<rparr>)) = full_db"
  by (simp add: full_db_def example_user_def actor_def always_allowed_def shares_local_def
      findById_def findOne_def updateUser_def superAdmin_limit_check_def countDocuments_def
      MAX_SUPER_ADMINS_def empty_update_def db_after_def)

text \<open>
  C6, amended. The target is stored. When the actor is an admin, \<^verbatim>\<open>puedeAdministrar\<close>
  accepts the target, the target is no superAdmin and the superAdmin cap guard lets the
  request pass (the body's role is not \<open>superAdmin\<close>, or fewer than four superAdmins
  exist), the update is not rejected: what is written is the body without \<open>role\<close>,
  \<open>locales\<close>, \<open>localPrincipal\<close> and the five credential fields, with the modification
  stamp added, and the stored role, locations and principal location stay as they were.
  For every actor, an update that succeeds writes a document without the five credential
  fields, and the stored password, failed-attempt counter, lockout time, reset token and
  reset expiry stay as they were.
\<close>

theorem update_strips_fields:
  assumes found: "findById (users d) i = Some target"
  shows "(userRole rq = ''admin'' \<and> pa rq target \<and> role target \<noteq> ''superAdmin''
           \<and> superAdmin_limit_check d i ub = None \<longrightarrow>
            updateUser pa d rq now i ub
              = Inr (findByIdAndUpdate i
                  (set_fields ((delete_credentials ub)
                     \<lparr>b_role := None, b_locales := None, b_localPrincipal := None,
                      b_ultimaModificacion := Some (userId rq, now)\<rparr>)) d)
          \<and> (\<exists>u'. findById (users (db_after d (updateUser pa d rq now i ub))) i = Some u'
                \<and> u' = set_fields ((delete_credentials ub)
                     \<lparr>b_role := None, b_locales := None, b_localPrincipal := None,
                      b_ultimaModificacion := Some (userId rq, now)\<rparr>) target
                \<and> role u' = role target \<and> locales u' = locales target
                \<and> localPrincipal u' = localPrincipal target))
       \<and> (\<forall>d'. updateUser pa d rq now i ub = Inr d' \<longrightarrow>
            (\<exists>s u'. d' = findByIdAndUpdate i (set_fields s) d
                \<and> b_password s = None \<and> b_intentosFallidos s = None \<and> b_bloqueadoHasta s = None
                \<and> b_passwordResetToken s = None \<and> b_passwordResetExpires s = None
                \<and> findById (users d') i = Some u'
                \<and> password u' = password target
                \<and> intentosFallidos u' = intentosFallidos target
                \<and> bloqueadoHasta u' = bloqueadoHasta target
                \<and> passwordResetToken u' = passwordResetToken target
                \<and> passwordResetExpires u' = passwordResetExpires target))"
proof -
  let ?w = "(delete_credentials ub)
              \<lparr>b_role := None, b_locales := None, b_localPrincipal := None,
               b_ultimaModificacion := Some (userId rq, now)\<rparr>"
  have admin: "updateUser pa d rq now i ub = Inr (findByIdAndUpdate i (set_fields ?w) d)
          \<and> (\<exists>u'. findById (users (db_after d (updateUser pa d rq now i ub))) i = Some u'
                \<and> u' = set_fields ?w target
                \<and> role u' = role target \<and> locales u' = locales target
                \<and> localPrincipal u' = localPrincipal target)"
    if h: "userRole rq = ''admin''" "pa rq target" "role target \<noteq> ''superAdmin''"
      "superAdmin_limit_check d i ub = None"
  proof -
    have res: "updateUser pa d rq now i ub = Inr (findByIdAndUpdate i (set_fields ?w) d)"
      using update_admin_actor [OF h(1) found h(4), of pa now] h(2,3)
      by (simp add: prepare_update_admin)
    have st: "findById (users (findByIdAndUpdate i (set_fields ?w) d)) i
        = Some (set_fields ?w target)"
      by (rule stored_after_update [OF found])
    have keep: "role (set_fields ?w target) = role target
        \<and> locales (set_fields ?w target) = locales target
        \<and> localPrincipal (set_fields ?w target) = localPrincipal target"
      by (simp add: set_fields_def)
    show ?thesis using res st keep by (simp add: db_after_def)
  qed
  have cred: "\<exists>s u'. d' = findByIdAndUpdate i (set_fields s) d
                \<and> b_password s = None \<and> b_intentosFallidos s = None \<and> b_bloqueadoHasta s = None
                \<and> b_passwordResetToken s = None \<and> b_passwordResetExpires s = None
                \<and> findById (users d') i = Some u'
                \<and> password u' = password target
                \<and> intentosFallidos u' = intentosFallidos target
                \<and> bloqueadoHasta u' = bloqueadoHasta target
                \<and> passwordResetToken u' = passwordResetToken target
                \<and> passwordResetExpires u' = passwordResetExpires target"
    if ok: "updateUser pa d rq now i ub = Inr d'" for d'
  proof -
    define s where "s = prepare_update rq now target
              (if userRole rq = ''admin''
               then ub\<lparr>b_role := None, b_locales := None, b_localPrincipal := None\<rparr>
               else ub)"
    have d': "d' = findByIdAndUpdate i (set_fields s) d"
      unfolding s_def by (rule update_success_form [OF found ok])
    have none: "b_password s = None \<and> b_intentosFallidos s = None \<and> b_bloqueadoHasta s = None
                \<and> b_passwordResetToken s = None \<and> b_passwordResetExpires s = None"
      unfolding s_def by (rule prepare_update_credentials)
    have st: "findById (users d') i = Some (set_fields s target)"
      unfolding d' by (rule stored_after_update [OF found])
    show ?thesis
      using d' none st set_fields_credentials [of s target] by blast
  qed
  show ?thesis using admin cred by blast
qed

theorem update_strips_fields_witness:
  "map_option nombre
     (findById (users (db_after example_db
        (updateUser always_allowed example_db (actor ''A1'' ''admin'' [''L1'']) 7 ''U1''
           (empty_update\<lparr>b_nombre := Some ''Eva'', b_role := Some ''admin'',
              b_locales := Some [''L2''], b_password := Some ''x''\<rparr>)))) ''U1'') = Some ''Eva''
 \<and> map_option role
     (findById (users (db_after example_db
        (updateUser always_allowed example_db (actor ''A1'' ''admin'' [''L1'']) 7 ''U1''
           (empty_update\<lparr>b_nombre := Some ''Eva'', b_role := Some ''admin'',
              b_locales := Some [''L2''], b_password := Some ''x''\<rparr>)))) ''U1'') = Some ''usuario''
 \<and> map_option locales
     (findById (users (db_after example_db
        (updateUser always_allowed example_db (actor ''A1'' ''admin'' [''L1'']) 7 ''U1''
           (empty_update\<lparr>b_nombre := Some ''Eva'', b_role := Some ''admin'',
              b_locales := Some [''L2''], b_password := Some ''x''\<rparr>)))) ''U1'') = Some [''L1'']
 \<and> map_option password
     (findById (users (db_after example_db
        (updateUser always_allowed example_db (actor ''A1'' ''admin'' [''L1'']) 7 ''U1''
           (empty_update\<lparr>b_nombre := Some ''Eva'', b_role := Some ''admin'',
              b_locales := Some [''L2''], b_password := Some ''x''\<rparr>)))) ''U1'') = Some ''hash''"
proof -
  let ?rq = "actor ''A1'' ''admin'' [''L1'']"
  let ?U1 = "example_user ''U1'' ''usuario'' [''L1''] True"
  let ?ub = "empty_update\<lparr>b_nombre := Some ''Eva'', b_role := Some ''admin'',
              b_locales := Some [''L2''], b_password := Some ''x''\<rparr>"
  have found: "findById (users example_db) ''U1'' = Some ?U1"
    by (simp add: findById_def findOne_def example_db_def example_user_def)
  have h: "userRole ?rq = ''admin''" "always_allowed ?rq ?U1" "role ?U1 \<noteq> ''superAdmin''"
    "superAdmin_limit_check example_db ''U1'' ?ub = None"
    by (simp_all add: actor_def always_allowed_def example_user_def superAdmin_limit_check_def
        empty_update_def)
  have vals: "nombre (set_fields ((delete_credentials ?ub)
                     \<lparr>b_role := None, b_locales := None, b_localPrincipal := None,
                      b_ultimaModificacion := Some (userId ?rq, 7)\<rparr>) ?U1) = ''Eva''"
    "password (set_fields ((delete_credentials ?ub)
                     \<lparr>b_role := None, b_locales := None, b_localPrincipal := None,
                      b_ultimaModificacion := Some (userId ?rq, 7)\<rparr>) ?U1) = ''hash''"
    "role ?U1 = ''usuario''" "locales ?U1 = [''L1'']"
    by (simp_all add: set_fields_def delete_credentials_def empty_update_def example_user_def)
  from update_strips_fields [OF found, of ?rq always_allowed ?ub 7] h
  obtain u' where "findById (users (db_after example_db
        (updateUser always_allowed example_db ?rq 7 ''U1'' ?ub))) ''U1'' = Some u'"
    and "u' = set_fields ((delete_credentials ?ub)
                     \<lparr>b_role := None, b_locales := None, b_localPrincipal := None,
                      b_ultimaModificacion := Some (userId ?rq, 7)\<rparr>) ?U1"
    and "role u' = role ?U1" "locales u' = locales ?U1"
    by blast
  then show ?thesis using vals by simp
qed

subsection \<open>The flag esAdministradorLocal\<close>

text \<open>
  C8 does not hold. In \<open>example_db\<close> the admin \<open>A1\<close> of location \<open>L1\<close> has the flag
  set. A superAdmin changes its role to \<open>usuario\<close>: the update succeeds and the flag is
  still set. A superAdmin empties its locations: the update succeeds and the flag is
  still set.
\<close>

theorem flag_not_recomputed_counterexample:
  "map_option role (findById (users example_db) ''A1'') = Some ''admin''
 \<and> map_option esAdministradorLocal (findById (users example_db) ''A1'') = Some True
 \<and> failure_kind (updateUser always_allowed example_db (actor ''S1'' ''superAdmin'' []) 7 ''A1''
      (empty_update\<lparr>b_role := Some ''usuario''\<rparr>)) = None
 \<and> map_option role
      (findById (users (db_after example_db
         (updateUser always_allowed example_db (actor ''S1'' ''superAdmin'' []) 7 ''A1''
            (empty_update\<lparr>b_role := Some ''usuario''\<rparr>)))) ''A1'') = Some ''usuario''
 \<and> map_option esAdministradorLocal
      (findById (users (db_after example_db
         (updateUser always_allowed example_db (actor ''S1'' ''superAdmin'' []) 7 ''A1''
            (empty_update\<lparr>b_role := Some ''usuario''\<rparr>)))) ''A1'') = Some True
 \<and> failure_kind (updateUser always_allowed example_db (actor ''S1'' ''superAdmin'' []) 7 ''A1''
      (empty_update\<lparr>b_locales := Some []\<rparr>)) = None
 \<and> map_option locales
      (findById (users (db_after example_db
         (updateUser always_allowed example_db (actor ''S1'' ''superAdmin'' []) 7 ''A1''
            (empty_update\<lparr>b_locales := Some []\<rparr>)))) ''A1'') = Some []
 \<and> map_option esAdministradorLocal
      (findById (users (db_after example_db
         (updateUser always_allowed example_db (actor ''S1'' ''superAdmin'' []) 7 ''A1''
            (empty_update\<lparr>b_locales := Some []\<rparr>)))) ''A1'') = Some True"
  by (simp add: example_db_def example_user_def actor_def findById_def findOne_def
      updateUser_def superAdmin_limit_check_def scope_check_def role_check_def
      prepare_update_def delete_credentials_def validators_pass_def valid_role_def
      set_fields_def findByIdAndUpdate_def empty_update_def db_after_def failure_kind_def
      has_locales_def first_local_def Let_def)

lemma create_success_form:
  assumes "createUser d rq now newId cb = Inr d'"
  shows "d' = d\<lparr>users := users d @ [new_user rq now newId cb]\<rparr>"
  using assms by (auto simp: createUser_def Let_def split: if_splits)

lemma new_user_flag:
  "esAdministradorLocal (new_user rq now newId cb)
     \<longleftrightarrow> role (new_user rq now newId cb) = ''admin'' \<and> locales (new_user rq now newId cb) \<noteq> []"
  by (auto simp: new_user_def created_user_def Let_def)

lemma prepare_update_flag:
  "b_esAdministradorLocal (prepare_update rq now target ud)
     = (if b_role ud = Some ''admin'' \<and> (has_locales (b_locales ud) \<or> locales target \<noteq> [])
        then Some True else b_esAdministradorLocal ud)"
  by (auto simp: prepare_update_def delete_credentials_def Let_def)

text \<open>
  C8, amended. \<^verbatim>\<open>createUser\<close> stores the flag set exactly when the stored user has
  role \<open>admin\<close> and at least one location. \<^verbatim>\<open>updateUser\<close>, when it succeeds, stores
  the flag set if the actor is not an admin, the body's role is \<open>admin\<close> and either
  the body has a non-empty list of locations or the target already has a location; in every
  other case it stores the flag the body carries, if it carries one, and otherwise
  leaves the stored flag as it was. It never recomputes the flag from the role and the
  locations it stores.
\<close>

theorem flag_writes:
  "(\<forall>d'. createUser d rq now newId cb = Inr d' \<longrightarrow>
       d' = d\<lparr>users := users d @ [new_user rq now newId cb]\<rparr>
     \<and> (esAdministradorLocal (new_user rq now newId cb)
          \<longleftrightarrow> role (new_user rq now newId cb) = ''admin''
              \<and> locales (new_user rq now newId cb) \<noteq> []))
 \<and> (\<forall>d'. findById (users d) i = Some target \<and> updateUser pa d rq now i ub = Inr d' \<longrightarrow>
       (\<exists>u'. findById (users d') i = Some u'
          \<and> esAdministradorLocal u'
              = (if userRole rq \<noteq> ''admin'' \<and> b_role ub = Some ''admin''
                    \<and> (has_locales (b_locales ub) \<or> locales target \<noteq> [])
                 then True
                 else case b_esAdministradorLocal ub of
                        Some b \<Rightarrow> b | None \<Rightarrow> esAdministradorLocal target)))"
proof -
  have upd: "\<exists>u'. findById (users d') i = Some u'
          \<and> esAdministradorLocal u'
              = (if userRole rq \<noteq> ''admin'' \<and> b_role ub = Some ''admin''
                    \<and> (has_locales (b_locales ub) \<or> locales target \<noteq> [])
                 then True
                 else case b_esAdministradorLocal ub of
                        Some b \<Rightarrow> b | None \<Rightarrow> esAdministradorLocal target)"
    if found: "findById (users d) i = Some target" and ok: "updateUser pa d rq now i ub = Inr d'"
    for d'
  proof -
    define ud where "ud = (if userRole rq = ''admin''
               then ub\<lparr>b_role := None, b_locales := None, b_localPrincipal := None\<rparr>
               else ub)"
    define s where "s = prepare_update rq now target ud"
    have d': "d' = findByIdAndUpdate i (set_fields s) d"
      unfolding s_def ud_def by (rule update_success_form [OF found ok])
    have st: "findById (users d') i = Some (set_fields s target)"
      unfolding d' by (rule stored_after_update [OF found])
    have fl: "esAdministradorLocal (set_fields s target)
        = (case b_esAdministradorLocal s of Some b \<Rightarrow> b | None \<Rightarrow> esAdministradorLocal target)"
      by (simp add: set_fields_def)
    have bs: "b_esAdministradorLocal s
        = (if userRole rq \<noteq> ''admin'' \<and> b_role ub = Some ''admin''
                    \<and> (has_locales (b_locales ub) \<or> locales target \<noteq> [])
           then Some True else b_esAdministradorLocal ub)"
      unfolding s_def prepare_update_flag ud_def by (auto simp: has_locales_def)
    show ?thesis using st fl bs by (auto split: option.splits)
  qed
  show ?thesis
    using create_success_form [of d rq now newId cb] new_user_flag [of rq now newId cb] upd
    by blast
qed

theorem flag_writes_witness:
  "esAdministradorLocal (new_user (actor ''S1'' ''superAdmin'' []) 7 ''N1''
      (example_create ''eve'' (Some ''admin'') (Some [''L1''])))
 \<and> createUser example_db (actor ''S1'' ''superAdmin'' []) 7 ''N1''
      (example_create ''eve'' (Some ''admin'') (Some [''L1'']))
      = Inr (example_db\<lparr>users := users example_db
              @ [new_user (actor ''S1'' ''superAdmin'' []) 7 ''N1''
                   (example_create ''eve'' (Some ''admin'') (Some [''L1'']))]\<rparr>)
 \<and> map_option esAdministradorLocal
      (findById (users (db_after example_db
         (updateUser always_allowed example_db (actor ''S1'' ''superAdmin'' []) 7 ''U1''
            (empty_update\<lparr>b_role := Some ''admin''\<rparr>)))) ''U1'') = Some True"
proof -
  let ?rq = "actor ''S1'' ''superAdmin'' []"
  let ?cb = "example_create ''eve'' (Some ''admin'') (Some [''L1''])"
  let ?ub = "empty_update\<lparr>b_role := Some ''admin''\<rparr>"
  let ?U1 = "example_user ''U1'' ''usuario'' [''L1''] True"
  have c: "\<exists>d'. createUser example_db ?rq 7 ''N1'' ?cb = Inr d'"
    by (simp add: createUser_def example_db_def example_user_def actor_def example_create_def
        has_locales_def Local_exists_def findOne_def new_user_def created_user_def
        valid_role_def Let_def)
  have nu: "role (new_user ?rq 7 ''N1'' ?cb) = ''admin''" "locales (new_user ?rq 7 ''N1'' ?cb) = [''L1'']"
    by (simp_all add: new_user_def created_user_def example_create_def has_locales_def Let_def)
  have found: "findById (users example_db) ''U1'' = Some ?U1"
    by (simp add: findById_def findOne_def example_db_def example_user_def)
  have u: "\<exists>d'. updateUser always_allowed example_db ?rq 7 ''U1'' ?ub = Inr d'"
    using found
    by (simp add: updateUser_def superAdmin_limit_check_def scope_check_def role_check_def
        validators_pass_def valid_role_def prepare_update_def delete_credentials_def
        empty_update_def actor_def example_user_def has_locales_def Let_def)
  have cond: "userRole ?rq \<noteq> ''admin''" "b_role ?ub = Some ''admin''" "locales ?U1 \<noteq> []"
    by (simp_all add: actor_def example_user_def)
  note fw = flag_writes [of example_db ?rq 7 "''N1''" ?cb "''U1''" ?U1 always_allowed ?ub]
  from c fw nu have w1: "esAdministradorLocal (new_user ?rq 7 ''N1'' ?cb)
      \<and> createUser example_db ?rq 7 ''N1'' ?cb
          = Inr (example_db\<lparr>users := users example_db @ [new_user ?rq 7 ''N1'' ?cb]\<rparr>)"
    by auto
  from u obtain d' where d': "updateUser always_allowed example_db ?rq 7 ''U1'' ?ub = Inr d'"
    by blast
  with fw found cond obtain u' where "findById (users d') ''U1'' = Some u'"
    and "esAdministradorLocal u'"
    by auto
  then have w2: "map_option esAdministradorLocal
      (findById (users (db_after example_db
         (updateUser always_allowed example_db ?rq 7 ''U1'' ?ub))) ''U1'') = Some True"
    using d' by (simp add: db_after_def)
  show ?thesis using w1 w2 by blast
qed

subsection \<open>The order of the checks of an update\<close>

text \<open>
  C10 does not hold when the target id matches no user. With four superAdmins stored, an
  update with role \<open>superAdmin\<close> for an id that no user has is answered by the
  \<^verbatim>\<open>catch\<close> block (status 500), not with the cap violation.
\<close>

theorem cap_before_lookup_counterexample:
  "findById (users full_db) ''X9'' = None
 \<and> MAX_SUPER_ADMINS \<le> superAdmin_count full_db
 \<and> updateUser always_allowed full_db (actor ''S1'' ''superAdmin'' []) 7 ''X9''
      (empty_update\<lparr>b_role := Some ''superAdmin''\<rparr>) = Inl InternalError
 \<and> failure_kind (updateUser always_allowed full_db (actor ''S1'' ''superAdmin'' []) 7 ''X9''
      (empty_update\<lparr>b_role := Some ''superAdmin''\<rparr>)) \<noteq> Some InvariantViolation"
  by (simp add: full_db_def example_user_def findById_def findOne_def updateUser_def
      superAdmin_limit_check_def superAdmin_count_def countDocuments_def MAX_SUPER_ADMINS_def
      empty_update_def failure_kind_def)

text \<open>
  C10, amended. The body's role is \<open>superAdmin\<close> and the target is stored. If the
  target is not a superAdmin and the cap is reached, the answer is the cap violation,
  whoever the actor is and whatever \<^verbatim>\<open>puedeAdministrar\<close> says: the cap check runs
  before the authorization checks. The answer is never the not-found response.
\<close>

theorem cap_check_precedes:
  assumes "b_role ub = Some ''superAdmin''" and "findById (users d) i = Some target"
  shows "(role target \<noteq> ''superAdmin'' \<and> MAX_SUPER_ADMINS \<le> superAdmin_count d \<longrightarrow>
            updateUser pa d rq now i ub = Inl SuperAdminLimitUpdate)
       \<and> updateUser pa d rq now i ub \<noteq> Inl UserNotFound"
proof -
  have nf: "scope_check pa d rq target ub \<noteq> Inl UserNotFound"
    by (auto simp: scope_check_def split: option.splits)
  have "updateUser pa d rq now i ub \<noteq> Inl UserNotFound"
    using assms nf
    by (auto simp: updateUser_def superAdmin_limit_check_def role_check_def
        split: option.splits sum.splits if_splits)
  then show ?thesis using update_cap_reached [OF assms, of pa rq now] by blast
qed

theorem cap_check_precedes_witness:
  "userRole (actor ''A1'' ''admin'' [''L3'']) = ''admin''
 \<and> map_option (shares_local (actor ''A1'' ''admin'' [''L3''])) (findById (users full_db) ''U1'')
      = Some False
 \<and> updateUser shares_local full_db (actor ''A1'' ''admin'' [''L3'']) 7 ''U1''
      (empty_update\<lparr>b_role := Some ''superAdmin''\<rparr>) = Inl SuperAdminLimitUpdate"
proof -
  let ?U1 = "example_user ''U1'' ''usuario'' [''L1''] True"
  let ?ub = "empty_update\<lparr>b_role := Some ''superAdmin''\<rparr>"
  have ub: "b_role ?ub = Some ''superAdmin''" by (simp add: empty_update_def)
  have found: "findById (users full_db) ''U1'' = Some ?U1"
    by (simp add: findById_def findOne_def full_db_def example_user_def)
  have r: "role ?U1 \<noteq> ''superAdmin''" by (simp add: example_user_def)
  have cap: "MAX_SUPER_ADMINS \<le> superAdmin_count full_db"
    by (simp add: full_db_count MAX_SUPER_ADMINS_def)
  have sh: "\<not> shares_local (actor ''A1'' ''admin'' [''L3'']) ?U1"
    by (simp add: shares_local_def actor_def example_user_def)
  show ?thesis
    using cap_check_precedes [OF ub found, of shares_local "actor ''A1'' ''admin'' [''L3'']" 7]
      r cap sh found
    by (simp add: actor_def)
qed

subsection \<open>Listing as an admin without locations\<close>

lemma build_filters_admin_no_locales:
  assumes "userRole rq = ''admin''" and "user_locales rq = []"
  shows "f_role (build_filters rq q) = Some (RoleNot ''superAdmin'')"
    and "f_locales (build_filters rq q)
          = (if truthy (q_local q) then Some (HasLocal (the (q_local q))) else None)"
    and "f_activo (build_filters rq q)
          = (if q_activo q = Some ''false'' then Some False
             else if q_activo q = Some ''true'' then Some True else None)"
    and "f_search (build_filters rq q) = (if truthy (q_search q) then q_search q else None)"
  using assms by (simp_all add: build_filters_def Let_def)

lemma getAllUsers_total:
  "total (getAllUsers regex d rq q)
     = countDocuments (selects regex (build_filters rq q)) (users d)"
  by (simp add: getAllUsers_def Let_def)

lemma getAllUsers_page_users:
  "page_users (getAllUsers regex d rq q)
     = take (limit (getAllUsers regex d rq q))
         (drop ((page (getAllUsers regex d rq q) - 1) * limit (getAllUsers regex d rq q))
            (rev (sort_key createdAt
               (filter (selects regex (build_filters rq q)) (users d)))))"
  by (simp add: getAllUsers_def Let_def)

lemma selects_admin_no_locales:
  assumes "userRole rq = ''admin''" and "user_locales rq = []"
    and "\<not> truthy (q_search q)" and "\<not> truthy (q_local q)"
    and "q_activo q \<noteq> Some ''true''" and "q_activo q \<noteq> Some ''false''"
  shows "selects regex (build_filters rq q) u \<longleftrightarrow> role u \<noteq> ''superAdmin''"
  unfolding selects_def build_filters_admin_no_locales [OF assms(1,2)]
  using assms(3-6) by simp

text \<open>
  C9. The actor is an admin with no locations. The filter of \<^verbatim>\<open>getAllUsers\<close> then
  excludes role \<open>superAdmin\<close>, whatever role the query asks for, and restricts the
  locations only if the query itself names one. When the query has no \<open>search\<close>,
  \<open>local\<close> or \<open>activo\<close> parameter, the filter selects exactly the users whose role
  is not \<open>superAdmin\<close>; \<open>total\<close> is their number; and when they fit on the first page,
  the page holds exactly them.
\<close>

theorem admin_without_locales_lists_all:
  assumes actor: "userRole rq = ''admin''" and none: "user_locales rq = []"
  shows "f_role (build_filters rq q) = Some (RoleNot ''superAdmin'')
       \<and> f_locales (build_filters rq q)
           = (if truthy (q_local q) then Some (HasLocal (the (q_local q))) else None)
       \<and> (\<not> truthy (q_search q) \<and> \<not> truthy (q_local q)
            \<and> q_activo q \<noteq> Some ''true'' \<and> q_activo q \<noteq> Some ''false'' \<longrightarrow>
            (\<forall>u. selects regex (build_filters rq q) u \<longleftrightarrow> role u \<noteq> ''superAdmin'')
          \<and> total (getAllUsers regex d rq q)
              = length (filter (\<lambda>u. role u \<noteq> ''superAdmin'') (users d))
          \<and> (page (getAllUsers regex d rq q) = 1
               \<and> total (getAllUsers regex d rq q) \<le> limit (getAllUsers regex d rq q) \<longrightarrow>
               set (page_users (getAllUsers regex d rq q))
                 = {u \<in> set (users d). role u \<noteq> ''superAdmin''}))"
proof -
  note bf = build_filters_admin_no_locales [OF actor none, of q]
  have rest: "(\<forall>u. selects regex (build_filters rq q) u \<longleftrightarrow> role u \<noteq> ''superAdmin'')
          \<and> total (getAllUsers regex d rq q)
              = length (filter (\<lambda>u. role u \<noteq> ''superAdmin'') (users d))
          \<and> (page (getAllUsers regex d rq q) = 1
               \<and> total (getAllUsers regex d rq q) \<le> limit (getAllUsers regex d rq q) \<longrightarrow>
               set (page_users (getAllUsers regex d rq q))
                 = {u \<in> set (users d). role u \<noteq> ''superAdmin''})"
    if h: "\<not> truthy (q_search q)" "\<not> truthy (q_local q)"
      "q_activo q \<noteq> Some ''true''" "q_activo q \<noteq> Some ''false''"
  proof -
    have sel: "selects regex (build_filters rq q) u \<longleftrightarrow> role u \<noteq> ''superAdmin''" for u
      by (rule selects_admin_no_locales [OF actor none h])
    then have eq: "selects regex (build_filters rq q) = (\<lambda>u. role u \<noteq> ''superAdmin'')"
      by (rule ext)
    have tot: "total (getAllUsers regex d rq q)
              = length (filter (\<lambda>u. role u \<noteq> ''superAdmin'') (users d))"
      by (simp only: getAllUsers_total eq countDocuments_def)
    have pg: "set (page_users (getAllUsers regex d rq q))
                 = {u \<in> set (users d). role u \<noteq> ''superAdmin''}"
      if p: "page (getAllUsers regex d rq q) = 1"
        and l: "total (getAllUsers regex d rq q) \<le> limit (getAllUsers regex d rq q)"
    proof -
      let ?found = "rev (sort_key createdAt (filter (\<lambda>u. role u \<noteq> ''superAdmin'') (users d)))"
      have len: "length ?found \<le> limit (getAllUsers regex d rq q)"
        using l tot by simp
      have "page_users (getAllUsers regex d rq q)
              = take (limit (getAllUsers regex d rq q)) (drop 0 ?found)"
        by (simp only: getAllUsers_page_users [of regex d rq q] p eq diff_self_eq_0 mult_0)
      also have "\<dots> = ?found" using len by simp
      finally show ?thesis by simp
    qed
    show ?thesis using sel tot pg by blast
  qed
  show ?thesis using bf(1,2) rest by blast
qed

theorem admin_without_locales_lists_all_witness:
  "total (getAllUsers no_match example_db (actor ''A0'' ''admin'' []) empty_query) = 4
 \<and> set (page_users (getAllUsers no_match example_db (actor ''A0'' ''admin'' []) empty_query))
     = set [example_user ''A1'' ''admin'' [''L1''] True,
            example_user ''A2'' ''admin'' [''L1'', ''L2''] True,
            example_user ''U1'' ''usuario'' [''L1''] True,
            example_user ''U2'' ''usuario'' [''L2''] True]"
proof -
  let ?rq = "actor ''A0'' ''admin'' []"
  have rq: "userRole ?rq = ''admin''" "user_locales ?rq = []" by (simp_all add: actor_def)
  have q: "\<not> truthy (q_search empty_query)" "\<not> truthy (q_local empty_query)"
    "q_activo empty_query \<noteq> Some ''true''" "q_activo empty_query \<noteq> Some ''false''"
    by (simp_all add: empty_query_def)
  have pl: "page (getAllUsers no_match example_db ?rq empty_query) = 1"
    "limit (getAllUsers no_match example_db ?rq empty_query) = 10"
    by (simp_all add: getAllUsers_def empty_query_def Let_def)
  have fl: "filter (\<lambda>u. role u \<noteq> ''superAdmin'') (users example_db)
     = [example_user ''A1'' ''admin'' [''L1''] True,
        example_user ''A2'' ''admin'' [''L1'', ''L2''] True,
        example_user ''U1'' ''usuario'' [''L1''] True,
        example_user ''U2'' ''usuario'' [''L2''] True]"
    by (simp add: example_db_def example_user_def)
  have st: "{u \<in> set (users example_db). role u \<noteq> ''superAdmin''}
     = set (filter (\<lambda>u. role u \<noteq> ''superAdmin'') (users example_db))"
    by simp
  note th = admin_without_locales_lists_all [OF rq, of empty_query no_match example_db]
  have tot: "total (getAllUsers no_match example_db ?rq empty_query) = 4"
    using th q by (simp only: fl) simp
  have "set (page_users (getAllUsers no_match example_db ?rq empty_query))
      = {u \<in> set (users example_db). role u \<noteq> ''superAdmin''}"
    using th q pl tot by simp
  then show ?thesis using tot by (simp only: st fl) 
qed

end
